theory Spec2Isabelle
  imports Main "HOL-Library.Word" "HOL-Library.Char_ord"
begin

unbundle bit_operations_syntax

section \<open>The textual G-code parser of RepRapFirmware (StringParser.cpp)\<close>

text \<open>
  A shallow embedding of \<^verbatim>\<open>src/GCodes/GCodeBuffer/StringParser.cpp\<close>. The parser object
  and the fields of the enclosing \<^verbatim>\<open>GCodeBuffer\<close> that it reads and writes are one record;
  every member function takes the record and returns the updated one. A \<^verbatim>\<open>throw\<close> is the
  \<open>Inl\<close> of a sum, carrying what \<^verbatim>\<open>ConstructParseException\<close> puts into the exception: the
  value of \<^verbatim>\<open>readPointer\<close> at the throw and the message.

  Bytes are \<^typ>\<open>char\<close>; \<^verbatim>\<open>char\<close> is unsigned on the ARM targets of the firmware, so
  \<^verbatim>\<open>c < ' '\<close> is the comparison of the byte values (\<open>HOL-Library.Char_ord\<close>).
\<close>

subsection \<open>Characters and C strings\<close>

abbreviation NUL :: char where "NUL \<equiv> CHR 0x00"
abbreviation TAB :: char where "TAB \<equiv> CHR 0x09"
abbreviation LF :: char where "LF \<equiv> CHR 0x0A"
abbreviation CR :: char where "CR \<equiv> CHR 0x0D"
abbreviation DEL :: char where "DEL \<equiv> CHR 0x7F"
abbreviation DQUOTE :: char where "DQUOTE \<equiv> CHR 0x22"
abbreviation SQUOTE :: char where "SQUOTE \<equiv> CHR 0x27"

definition lowercase :: string where
  "lowercase = ''abcdefghijklmnopqrstuvwxyz''"

definition uppercase :: string where
  "uppercase = ''ABCDEFGHIJKLMNOPQRSTUVWXYZ''"

text \<open>The \<^verbatim>\<open><ctype.h>\<close> functions of the C locale, as their tables.\<close>

definition isdigit :: "char \<Rightarrow> bool" where
  "isdigit c = (c \<in> set ''0123456789'')"

definition isalpha :: "char \<Rightarrow> bool" where
  "isalpha c = (c \<in> set (lowercase @ uppercase))"

definition toupper :: "char \<Rightarrow> char" where
  "toupper c = (case map_of (zip lowercase uppercase) c of Some u \<Rightarrow> u | None \<Rightarrow> c)"

definition tolower :: "char \<Rightarrow> char" where
  "tolower c = (case map_of (zip uppercase lowercase) c of Some l \<Rightarrow> l | None \<Rightarrow> c)"

text \<open>\<^verbatim>\<open>c - '0'\<close> for a digit \<open>c\<close>.\<close>

definition digitval :: "char \<Rightarrow> nat" where
  "digitval c = of_char c - 48"

text \<open>
  \<^verbatim>\<open>gb.buffer[i]\<close>. The array has \<open>length b\<close> elements; a read at or past its end is
  undefined in C++, and the model reads NUL there. The parser writes a NUL at
  \<^verbatim>\<open>gcodeLineEnd\<close>, below the capacity, before any scan of the line starts.
\<close>

definition at :: "string \<Rightarrow> nat \<Rightarrow> char" where
  "at b i = (if i < length b then b ! i else NUL)"

text \<open>The C string that starts at \<^verbatim>\<open>gb.buffer + i\<close>: the bytes up to the first NUL.\<close>

definition cstring :: "string \<Rightarrow> nat \<Rightarrow> string" where
  "cstring b i = takeWhile (\<lambda>c. c \<noteq> NUL) (drop i b)"

text \<open>\<^verbatim>\<open>StringStartsWith(string, starting)\<close>, case sensitive.\<close>

definition StringStartsWith :: "string \<Rightarrow> string \<Rightarrow> bool" where
  "StringStartsWith str starting = (take (length starting) str = starting)"

text \<open>\<^verbatim>\<open>printf("%u", n)\<close>.\<close>

fun decimal :: "nat \<Rightarrow> string" where
  "decimal n = (if n < 10 then [''0123456789'' ! n]
                else decimal (n div 10) @ [''0123456789'' ! (n mod 10)])"

declare decimal.simps [simp del]

text \<open>
  \<^verbatim>\<open>SafeSnprintf(buf, ARRAY_SIZE(buf), ...)\<close> of the text \<open>t\<close>: at most capacity - 1 bytes of
  \<open>t\<close> and a NUL overwrite the start of the array; the bytes behind the NUL stay.
\<close>

definition SafeSnprintf :: "string \<Rightarrow> string \<Rightarrow> string" where
  "SafeSnprintf buf t =
     (let w = take (length buf - 1) t @ [NUL] in
      if buf = [] then buf else w @ drop (length w) buf)"

subsection \<open>Exceptions\<close>

datatype ErrorKind =
    Internal                      \<comment> \<open>\<^verbatim>\<open>THROW_INTERNAL_ERROR\<close>\<close>
  | ControlCharInString           \<comment> \<open>"control character in string"\<close>
  | NonEmptyStringExpected        \<comment> \<open>"non-empty string expected"\<close>
  | StringExpected                \<comment> \<open>"string expected"\<close>
  | StringExpressionExpected      \<comment> \<open>"expected string expression"\<close>
  | StringValueExpected           \<comment> \<open>"string value expected"\<close>
  | InvalidIP                     \<comment> \<open>"invalid IP address"\<close>
  | InvalidMAC                    \<comment> \<open>"invalid MAC address"\<close>
  | ArrayTooLong nat              \<comment> \<open>"array too long, max length = %u"\<close>
  | ExpectedFloat                 \<comment> \<open>"expected float value"\<close>
  | ExpectedInteger               \<comment> \<open>"expected integer value"\<close>
  | ExpectedNonNegativeInteger    \<comment> \<open>"expected non-negative integer value"\<close>
  | ValueMustBeNonNegative        \<comment> \<open>"value must be non-negative"\<close>
  | ExpectedCloseBrace            \<comment> \<open>"expected '}'"\<close>
  | ExpectedVariableName          \<comment> \<open>"expected variable name"\<close>
  | VariableNameTooLong           \<comment> \<open>"variable name too long"\<close>
  | ElseWithoutIf                 \<comment> \<open>"'else' did not follow 'if"\<close>
  | BreakOutsideLoop              \<comment> \<open>"'break' was not inside a loop"\<close>
  | NotImplementedVar             \<comment> \<open>"'var' not implemented yet"\<close>
  | ConditionEvaluationFailed string  \<comment> \<open>"Failed to evaluate condition after '%s'"\<close>

text \<open>\<^verbatim>\<open>ParseException(readPointer, message)\<close>.\<close>

datatype ParseException = ParseException int ErrorKind

subsection \<open>The parser state\<close>

datatype GCodeBufferState =
    parseNotStarted | parsingLineNumber | parsingWhitespace | parsingGCode
  | parsingBracketedComment | parsingQuotedString | parsingChecksum | discarding | ready

text \<open>
  Modelled from the spec: the class \<^verbatim>\<open>BlockState\<close> of \<^verbatim>\<open>GCodeMachineState\<close> is not among
  the sources. A frame is a plain block, the block of an \<^verbatim>\<open>if\<close> whose condition was true
  or false, or a loop with the file position and line number to restart from.
\<close>

datatype BlockState = PlainBlock | IfTrueBlock | IfFalseBlock | LoopBlock int "32 word"

fun IsLoop :: "BlockState \<Rightarrow> bool" where
  "IsLoop (LoopBlock p n) = True"
| "IsLoop b = False"

fun GetFilePosition_of :: "BlockState \<Rightarrow> int" where
  "GetFilePosition_of (LoopBlock p n) = p"
| "GetFilePosition_of b = 0"

fun GetLineNumber_of :: "BlockState \<Rightarrow> 32 word" where
  "GetLineNumber_of (LoopBlock p n) = n"
| "GetLineNumber_of b = 0"

text \<open>
  The fields of \<^verbatim>\<open>StringParser\<close>, the buffer and state of its \<^verbatim>\<open>GCodeBuffer\<close>, and the
  fields of \<^verbatim>\<open>gb.machineState\<close> that the parser uses. The header that declares the
  field types is not among the sources; the widths follow the spec (\<open>LineMeta\<close>): the
  checksums are bytes and the line numbers 32-bit. Indices and indent counts are \<open>nat\<close>.
  The command number is an \<^verbatim>\<open>int\<close> that the decoder negates, modelled as \<open>int\<close>.

  Modelled from the spec: of the machine state, \<open>currentBlock\<close> is the frame
  \<^verbatim>\<open>CurrentBlockState()\<close> and \<open>enclosingBlocks\<close> the frames around it, innermost first, so
  that \<^verbatim>\<open>indentLevel\<close> is the length of that sequence; \<open>filePos\<close> is
  \<^verbatim>\<open>fileState.GetPosition() - fileInput->BytesCached()\<close>.
\<close>

record parser =
  buffer :: string
  bufferState :: GCodeBufferState
  gcodeLineEnd :: nat
  commandLength :: nat
  readPointer :: int
  hadLineNumber :: bool
  hadChecksum :: bool
  computedChecksum :: "8 word"
  declaredChecksum :: "8 word"
  receivedLineNumber :: "32 word"
  commandIndent :: nat
  indentToSkipTo :: nat
  commandStart :: nat
  parameterStart :: nat
  commandEnd :: nat
  commandLetter :: char
  hasCommandNumber :: bool
  commandNumber :: int
  commandFraction :: int
  checksumRequired :: bool
  lineNumber :: "32 word"
  currentBlock :: BlockState
  enclosingBlocks :: "BlockState list"
  doingFile :: bool
  previousIsNull :: bool
  g53Active :: bool
  filePos :: int

definition indentLevel :: "parser \<Rightarrow> nat" where
  "indentLevel s = length (enclosingBlocks s)"

text \<open>Modelled from the spec: \<^verbatim>\<open>NoIndentSkip\<close>, the largest 16-bit value.\<close>

definition NoIndentSkip :: nat where
  "NoIndentSkip = 65535"

text \<open>
  What the parser takes from the rest of the firmware: the configuration read through
  \<^verbatim>\<open>reprap.GetGCodes()\<close>, the object model, and the library functions that are not among
  the sources. \<open>'f\<close> is the type \<^verbatim>\<open>float\<close>. \<open>SafeStrtoul base str\<close> and \<open>SafeStrtol str\<close>
  return the value and the number of bytes of the C string \<open>str\<close> they consumed (the end
  pointer); \<open>SafeStrtof\<close> is only ever called with a null end pointer.

  An \<^verbatim>\<open>ExpressionValue\<close> is its type tag and the value of that type. The parser names
  eight types; \<open>EVother\<close> is a value of any type that the \<^verbatim>\<open>default\<close> branches receive.
\<close>

datatype 'f ExpressionValue =
    EVfloat 'f | EVFloat2 'f | EVFloat3 'f
  | EVint32 "32 word" | EVuint32 "32 word"
  | EVbool bool | EVstring string | EVIPAddress "32 word"
  | EVother

record 'f env =
  axisLetters :: string
  machineIsCnc :: bool
  maxVariableNameLength :: nat
  GetObjectValue :: "string \<Rightarrow> 'f ExpressionValue"
  SafeStrtof :: "string \<Rightarrow> 'f"
  SafeStrtol :: "string \<Rightarrow> 32 word \<times> nat"
  SafeStrtoul :: "nat \<Rightarrow> string \<Rightarrow> 32 word \<times> nat"
  floatOfInt32 :: "32 word \<Rightarrow> 'f"
  floatOfUInt32 :: "32 word \<Rightarrow> 'f"
  printfFloat :: "nat \<Rightarrow> 'f \<Rightarrow> string"
  IP4String :: "32 word \<Rightarrow> string"

definition throw :: "int \<Rightarrow> ErrorKind \<Rightarrow> ParseException + 'a" where
  "throw rp k = Inl (ParseException rp k)"

subsection \<open>Init and the checksum\<close>

definition Init :: "parser \<Rightarrow> parser" where
  "Init s = s\<lparr>gcodeLineEnd := 0, commandLength := 0, readPointer := -1,
               hadLineNumber := False, hadChecksum := False, computedChecksum := 0,
               bufferState := parseNotStarted, commandIndent := 0\<rparr>"

text \<open>
  The constructor: \<open>n\<close> is the capacity of \<^verbatim>\<open>gb.buffer\<close>. The fields the constructor
  leaves uninitialised are 0 here.
\<close>

definition StringParser :: "nat \<Rightarrow> parser" where
  "StringParser n = Init
     \<lparr>buffer = replicate n NUL, bufferState = parseNotStarted, gcodeLineEnd = 0,
      commandLength = 0, readPointer = -1, hadLineNumber = False, hadChecksum = False,
      computedChecksum = 0, declaredChecksum = 0, receivedLineNumber = 0, commandIndent = 0,
      indentToSkipTo = NoIndentSkip, commandStart = 0, parameterStart = 0, commandEnd = 0,
      commandLetter = CHR ''Q'', hasCommandNumber = False, commandNumber = 0,
      commandFraction = 0, checksumRequired = False, lineNumber = 0,
      currentBlock = PlainBlock, enclosingBlocks = [], doingFile = False,
      previousIsNull = True, g53Active = False, filePos = 0\<rparr>"

definition AddToChecksum :: "char \<Rightarrow> parser \<Rightarrow> parser" where
  "AddToChecksum c s = s\<lparr>computedChecksum := computedChecksum s XOR of_char c\<rparr>"

definition StoreAndAddToChecksum :: "char \<Rightarrow> parser \<Rightarrow> parser" where
  "StoreAndAddToChecksum c s =
     (let s1 = s\<lparr>computedChecksum := computedChecksum s XOR of_char c\<rparr> in
      if gcodeLineEnd s1 < length (buffer s1)
      then s1\<lparr>buffer := (buffer s1)[gcodeLineEnd s1 := c], gcodeLineEnd := gcodeLineEnd s1 + 1\<rparr>
      else s1)"

subsection \<open>The ingest state machine of Put\<close>

text \<open>
  The \<^verbatim>\<open>do ... while (again)\<close> loop of \<^verbatim>\<open>Put\<close>: one equation per case of the switch on
  \<^verbatim>\<open>gb.bufferState\<close>; a case that sets \<^verbatim>\<open>again\<close> runs the loop body once more in the state
  it has just stored.
\<close>

fun rank :: "GCodeBufferState \<Rightarrow> nat" where
  "rank parsingLineNumber = 3"
| "rank parseNotStarted = 2"
| "rank parsingWhitespace = 2"
| "rank parsingGCode = 1"
| "rank parsingChecksum = 1"
| "rank st = 0"

function (sequential) PutLoop :: "GCodeBufferState \<Rightarrow> char \<Rightarrow> parser \<Rightarrow> parser" where
  "PutLoop parseNotStarted c s =
     (if c = CHR ''N'' \<or> c = CHR ''n'' then
        (AddToChecksum c (s\<lparr>hadLineNumber := True\<rparr>))
          \<lparr>bufferState := parsingLineNumber, receivedLineNumber := 0\<rparr>
      else if c = CHR '' '' \<or> c = TAB then
        (AddToChecksum c s)\<lparr>commandIndent := commandIndent s + 1\<rparr>
      else PutLoop parsingGCode c (s\<lparr>bufferState := parsingGCode, commandStart := 0\<rparr>))"
| "PutLoop parsingLineNumber c s =
     (if isdigit c then
        (AddToChecksum c s)
          \<lparr>receivedLineNumber := 10 * receivedLineNumber s + of_nat (digitval c)\<rparr>
      else PutLoop parsingWhitespace c (s\<lparr>bufferState := parsingWhitespace\<rparr>))"
| "PutLoop parsingWhitespace c s =
     (if c = CHR '' '' \<or> c = TAB then AddToChecksum c s
      else PutLoop parsingGCode c (s\<lparr>bufferState := parsingGCode, commandStart := 0\<rparr>))"
| "PutLoop parsingGCode c s =
     (if c = CHR ''*'' then
        s\<lparr>declaredChecksum := 0, hadChecksum := True, bufferState := parsingChecksum\<rparr>
      else if c = CHR '';'' then s\<lparr>bufferState := discarding\<rparr>
      else if c = CHR ''('' then (AddToChecksum c s)\<lparr>bufferState := parsingBracketedComment\<rparr>
      else if c = DQUOTE then (StoreAndAddToChecksum c s)\<lparr>bufferState := parsingQuotedString\<rparr>
      else StoreAndAddToChecksum c s)"
| "PutLoop parsingBracketedComment c s =
     (let s1 = AddToChecksum c s in
      if c = CHR '')'' then s1\<lparr>bufferState := parsingGCode\<rparr> else s1)"
| "PutLoop parsingQuotedString c s =
     (let s1 = StoreAndAddToChecksum c s in
      if c = DQUOTE then s1\<lparr>bufferState := parsingGCode\<rparr> else s1)"
| "PutLoop parsingChecksum c s =
     (if isdigit c then
        s\<lparr>declaredChecksum := 10 * declaredChecksum s + of_nat (digitval c)\<rparr>
      else PutLoop discarding c (s\<lparr>bufferState := discarding\<rparr>))"
| "PutLoop discarding c s = s"
| "PutLoop ready c s = s"
  by pat_completeness auto
termination
  by (relation "measure (\<lambda>(st, c, s). rank st)") auto


subsection \<open>Blocks\<close>

text \<open>
  Modelled from the spec: \<^verbatim>\<open>GCodeMachineState::CreateBlock\<close> opens a plain frame inside
  the current one and \<^verbatim>\<open>EndBlock\<close> returns to the enclosing frame; neither is among the
  sources. \<^verbatim>\<open>gb.RestartFrom(pos)\<close> repositions the file reader.
\<close>

definition CreateBlock :: "parser \<Rightarrow> parser" where
  "CreateBlock s = s\<lparr>enclosingBlocks := currentBlock s # enclosingBlocks s, currentBlock := PlainBlock\<rparr>"

definition EndBlock :: "parser \<Rightarrow> parser" where
  "EndBlock s = (case enclosingBlocks s of [] \<Rightarrow> s
                 | b # bs \<Rightarrow> s\<lparr>currentBlock := b, enclosingBlocks := bs\<rparr>)"

definition RestartFrom :: "int \<Rightarrow> parser \<Rightarrow> parser" where
  "RestartFrom pos s = s\<lparr>filePos := pos\<rparr>"

definition GetFilePosition :: "parser \<Rightarrow> int" where
  "GetFilePosition s =
     (if doingFile s then filePos s - int (commandLength s) + int (commandStart s) else -1)"

function CreateBlocks :: "parser \<Rightarrow> parser" where
  "CreateBlocks s = (if indentLevel s < commandIndent s then CreateBlocks (CreateBlock s) else s)"
  by pat_completeness auto
termination
  by (relation "measure (\<lambda>s. commandIndent s - indentLevel s)")
     (auto simp: CreateBlock_def indentLevel_def)

declare CreateBlocks.simps [simp del]

text \<open>\<^verbatim>\<open>EndBlocks\<close> returns true when a loop block was reached and the file was rewound.\<close>

function EndBlocks :: "parser \<Rightarrow> bool \<times> parser" where
  "EndBlocks s =
     (if indentLevel s > commandIndent s then
        (let s1 = EndBlock s in
         if IsLoop (currentBlock s1)
         then (True, RestartFrom (GetFilePosition_of (currentBlock s1))
                       (s1\<lparr>lineNumber := GetLineNumber_of (currentBlock s1)\<rparr>))
         else EndBlocks s1)
      else (False, s))"
  by pat_completeness auto
termination
  by (relation "measure indentLevel")
     (auto simp: EndBlock_def indentLevel_def split: list.splits)

declare EndBlocks.simps [simp del]

definition EvaluateCondition :: "string \<Rightarrow> parser \<Rightarrow> ParseException + bool" where
  "EvaluateCondition keyword s = throw (readPointer s) (ConditionEvaluationFailed keyword)"

definition ProcessIfCommand :: "parser \<Rightarrow> ParseException + parser" where
  "ProcessIfCommand s =
     (case EvaluateCondition ''if'' s of
        Inl e \<Rightarrow> Inl e
      | Inr b \<Rightarrow>
          if b then Inr (s\<lparr>currentBlock := IfTrueBlock\<rparr>)
          else Inr (s\<lparr>currentBlock := IfFalseBlock, indentToSkipTo := indentLevel s\<rparr>))"

definition ProcessElseCommand :: "bool \<Rightarrow> parser \<Rightarrow> ParseException + parser" where
  "ProcessElseCommand skippedIfFalse s =
     (if skippedIfFalse then Inr (s\<lparr>currentBlock := PlainBlock\<rparr>)
      else if currentBlock s = IfTrueBlock then Inr (s\<lparr>indentToSkipTo := indentLevel s\<rparr>)
      else throw (readPointer s) ElseWithoutIf)"

definition ProcessWhileCommand :: "parser \<Rightarrow> ParseException + parser" where
  "ProcessWhileCommand s =
     (case EvaluateCondition ''while'' s of
        Inl e \<Rightarrow> Inl e
      | Inr b \<Rightarrow>
          if b then Inr (s\<lparr>currentBlock := LoopBlock (GetFilePosition s) (lineNumber s)\<rparr>)
          else Inr (s\<lparr>indentToSkipTo := indentLevel s\<rparr>))"

function BreakLoop :: "parser \<Rightarrow> ParseException + parser" where
  "BreakLoop s =
     (if indentLevel s = 0 then throw (readPointer s) BreakOutsideLoop
      else (let s1 = EndBlock s in
            if IsLoop (currentBlock s1) then Inr s1 else BreakLoop s1))"
  by pat_completeness auto
termination
  by (relation "measure indentLevel")
     (auto simp: EndBlock_def indentLevel_def split: list.splits)

declare BreakLoop.simps [simp del]

definition ProcessBreakCommand :: "parser \<Rightarrow> ParseException + parser" where
  "ProcessBreakCommand s =
     (case BreakLoop s of Inl e \<Rightarrow> Inl e | Inr s1 \<Rightarrow> Inr (s1\<lparr>currentBlock := PlainBlock\<rparr>))"

definition ProcessVarCommand :: "parser \<Rightarrow> ParseException + parser" where
  "ProcessVarCommand s = throw (readPointer s) NotImplementedVar"

text \<open>The count of leading lowercase letters of the buffer, stopping at 6.\<close>

function CountLowercase :: "string \<Rightarrow> nat \<Rightarrow> nat" where
  "CountLowercase b i =
     (if CHR ''a'' \<le> at b i \<and> at b i \<le> CHR ''z''
      then (if i + 1 = 6 then i + 1 else CountLowercase b (i + 1))
      else i)"
  by pat_completeness auto
termination
  by (relation "measure (\<lambda>(b, i). length b - i)")
     (auto simp: at_def less_eq_char_def split: if_splits)

declare CountLowercase.simps [simp del]

definition consumed :: "ParseException + parser \<Rightarrow> ParseException + (bool \<times> parser)" where
  "consumed r = (case r of Inl e \<Rightarrow> Inl e | Inr s \<Rightarrow> Inr (True, s))"

definition ProcessConditionalGCode :: "bool \<Rightarrow> parser \<Rightarrow> ParseException + (bool \<times> parser)" where
  "ProcessConditionalGCode skippedIfFalse s =
     (let (ended, s1) =
            (if commandIndent s > indentLevel s then (False, CreateBlocks s)
             else if commandIndent s < indentLevel s then EndBlocks s
             else (False, s))
      in
      if ended then Inr (True, s1)
      else
        (let i = CountLowercase (buffer s1) 0;
             t = at (buffer s1) i;
             command = cstring (buffer s1) (commandIndent s1)
         in
         if 2 \<le> i \<and> i < 6 \<and> (t = NUL \<or> t = CHR '' '' \<or> t = TAB) then
           (if i = 2 \<and> StringStartsWith command ''if'' then consumed (ProcessIfCommand s1)
            else if i = 3 \<and> StringStartsWith command ''var'' then consumed (ProcessVarCommand s1)
            else if i = 4 \<and> StringStartsWith command ''else''
              then consumed (ProcessElseCommand skippedIfFalse s1)
            else if i = 5 \<and> StringStartsWith command ''while'' then consumed (ProcessWhileCommand s1)
            else if i = 5 \<and> StringStartsWith command ''break'' then consumed (ProcessBreakCommand s1)
            else Inr (False, s1))
         else Inr (False, s1)))"

subsection \<open>DecodeCommand\<close>

text \<open>The \<^verbatim>\<open>do ... while (isdigit(...))\<close> loop that reads the command number.\<close>

function ReadCommandNumber :: "string \<Rightarrow> nat \<Rightarrow> int \<Rightarrow> int \<times> nat" where
  "ReadCommandNumber b p n =
     (let n1 = 10 * n + int (digitval (at b p)); p1 = p + 1 in
      if isdigit (at b p1) then ReadCommandNumber b p1 n1 else (n1, p1))"
  by pat_completeness auto
termination
  by (relation "measure (\<lambda>(b, p, n). length b - p)")
     (auto simp: at_def isdigit_def split: if_splits)

declare ReadCommandNumber.simps [simp del]

text \<open>The \<^verbatim>\<open>for\<close> loop that finds the end of the command.\<close>

function FindCommandEnd :: "string \<Rightarrow> nat \<Rightarrow> nat \<Rightarrow> bool \<Rightarrow> bool \<Rightarrow> nat" where
  "FindCommandEnd b lineEnd e inQuotes primed =
     (if e < lineEnd then
        (let c = at b e in
         if c = DQUOTE then FindCommandEnd b lineEnd (e + 1) (\<not> inQuotes) False
         else if \<not> inQuotes then
           (if primed \<and> (toupper c = CHR ''G'' \<or> toupper c = CHR ''M'') then e
            else FindCommandEnd b lineEnd (e + 1) inQuotes (c = CHR '' '' \<or> c = TAB))
         else FindCommandEnd b lineEnd (e + 1) inQuotes primed)
      else e)"
  by pat_completeness auto
termination
  by (relation "measure (\<lambda>(b, lineEnd, e, q, p). lineEnd - e)") auto

declare FindCommandEnd.simps [simp del]

text \<open>
  \<^verbatim>\<open>strchr(reprap.GetGCodes().GetAxisLetters(), cl) != nullptr\<close>: \<^verbatim>\<open>strchr\<close> also finds the
  terminating NUL of the string it searches.
\<close>

definition strchr_found :: "string \<Rightarrow> char \<Rightarrow> bool" where
  "strchr_found str c = (c \<in> set str \<or> c = NUL)"

definition DecodeCommand :: "'f env \<Rightarrow> parser \<Rightarrow> parser" where
  "DecodeCommand E s0 =
     (let b = buffer s0;
          cl = toupper (at b (commandStart s0));
          s = s0\<lparr>commandFraction := -1\<rparr>
      in
      (if cl = CHR ''G'' \<or> cl = CHR ''M'' \<or> cl = CHR ''T'' then
         (let p0 = commandStart s + 1;
              negative = (at b p0 = CHR ''-'');
              p1 = (if negative then p0 + 1 else p0);
              s1 = s\<lparr>commandLetter := cl, hasCommandNumber := False, commandNumber := -1\<rparr>;
              s2 = (if isdigit (at b p1) then
                      (let (n, p2) = ReadCommandNumber b p1 0;
                           n' = (if negative then - n else n);
                           s' = s1\<lparr>hasCommandNumber := True, commandNumber := n'\<rparr>
                       in
                       if at b p2 = CHR ''.'' then
                         (if isdigit (at b (p2 + 1))
                          then s'\<lparr>commandFraction := int (digitval (at b (p2 + 1))),
                                  parameterStart := p2 + 2\<rparr>
                          else s'\<lparr>parameterStart := p2 + 1\<rparr>)
                       else s'\<lparr>parameterStart := p2\<rparr>)
                    else s1\<lparr>parameterStart := p1\<rparr>)
          in s2\<lparr>commandEnd := FindCommandEnd b (gcodeLineEnd s2) (parameterStart s2) False False\<rparr>)
       else if hasCommandNumber s \<and> commandLetter s = CHR ''G'' \<and> commandNumber s \<le> 3
               \<and> (strchr_found (axisLetters E) cl
                    \<or> ((cl = CHR ''I'' \<or> cl = CHR ''J'') \<and> commandNumber s \<ge> 2))
               \<and> machineIsCnc E
         then s\<lparr>parameterStart := commandStart s, commandEnd := gcodeLineEnd s\<rparr>
       else s\<lparr>commandLetter := cl, hasCommandNumber := False, commandNumber := -1,
               commandFraction := -1, parameterStart := commandStart s,
               commandEnd := gcodeLineEnd s\<rparr>)
      \<lparr>bufferState := ready\<rparr>)"

subsection \<open>LineFinished, Put and SetFinished\<close>

text \<open>
  The second half of \<^verbatim>\<open>LineFinished\<close>, from the update of the line number on: every path
  of the checksum test that does not return runs it.
\<close>

definition LineAccepted :: "'f env \<Rightarrow> parser \<Rightarrow> ParseException + (bool \<times> parser)" where
  "LineAccepted E s2 =
     (let s3 = (if hadLineNumber s2 then s2\<lparr>lineNumber := receivedLineNumber s2\<rparr>
                else s2\<lparr>lineNumber := lineNumber s2 + 1\<rparr>)
      in
      if doingFile s3 then
        (if indentToSkipTo s3 < commandIndent s3 then Inr (False, Init s3)
         else
           (let finishedSkipping =
                  (indentToSkipTo s3 \<noteq> NoIndentSkip \<and> indentToSkipTo s3 \<ge> commandIndent s3);
                sameIndent = (finishedSkipping \<and> indentToSkipTo s3 = commandIndent s3);
                skippedIfFalse = (sameIndent \<and> currentBlock s3 = IfFalseBlock);
                s4 = (if sameIndent then s3\<lparr>currentBlock := PlainBlock\<rparr> else s3);
                s5 = (if finishedSkipping then s4\<lparr>indentToSkipTo := NoIndentSkip\<rparr> else s4)
            in
            case ProcessConditionalGCode skippedIfFalse s5 of
              Inl e \<Rightarrow> Inl e
            | Inr (wasConditional, s6) \<Rightarrow>
                if wasConditional then Inr (False, Init s6)
                else Inr (True, DecodeCommand E (s6\<lparr>commandStart := 0\<rparr>))))
      else Inr (True, DecodeCommand E (s3\<lparr>commandStart := 0\<rparr>)))"

definition LineFinished :: "'f env \<Rightarrow> parser \<Rightarrow> ParseException + (bool \<times> parser)" where
  "LineFinished E s =
     (if gcodeLineEnd s = 0 then Inr (False, Init s)
      else if gcodeLineEnd s = length (buffer s) then Inr (False, Init s)
      else
        (let s1 = s\<lparr>buffer := (buffer s)[gcodeLineEnd s := NUL]\<rparr>;
             badChecksum = (hadChecksum s1 \<and> computedChecksum s1 \<noteq> declaredChecksum s1);
             missingChecksum = (checksumRequired s1 \<and> \<not> hadChecksum s1 \<and> previousIsNull s1)
         in
         if badChecksum then
           (if hadLineNumber s1
            then LineAccepted E
                   (s1\<lparr>buffer := SafeSnprintf (buffer s1)
                                    (''M998 P'' @ decimal (unat (receivedLineNumber s1)))\<rparr>)
            else Inr (False, Init s1))
         else if missingChecksum then Inr (False, Init s1)
         else LineAccepted E s1))"

definition Put :: "'f env \<Rightarrow> char \<Rightarrow> parser \<Rightarrow> ParseException + (bool \<times> parser)" where
  "Put E c s0 =
     (let s = (if c \<noteq> NUL then s0\<lparr>commandLength := commandLength s0 + 1\<rparr> else s0) in
      if c = NUL \<or> c = LF \<or> c = CR then LineFinished E s
      else
        (let s1 = (if c = DEL \<and> bufferState s \<noteq> discarding
                   then s\<lparr>gcodeLineEnd := 0, bufferState := discarding\<rparr> else s)
         in Inr (False, PutLoop (bufferState s1) c s1)))"

text \<open>
  \<^verbatim>\<open>Put(const char *str, size_t len)\<close>: the whole string, and a newline when no byte of it
  completed a line.
\<close>

fun PutChars :: "'f env \<Rightarrow> string \<Rightarrow> parser \<Rightarrow> ParseException + (bool \<times> parser)" where
  "PutChars E [] s = Put E LF s"
| "PutChars E (c # cs) s =
     (case Put E c s of
        Inl e \<Rightarrow> Inl e
      | Inr (complete, s1) \<Rightarrow> if complete then Inr (True, s1) else PutChars E cs s1)"

declare PutChars.simps [simp del]

definition PutString :: "'f env \<Rightarrow> string \<Rightarrow> parser \<Rightarrow> ParseException + parser" where
  "PutString E str s = map_sum id snd (PutChars E str (Init s))"

definition SetFinished :: "'f env \<Rightarrow> parser \<Rightarrow> parser" where
  "SetFinished E s =
     (if commandEnd s < gcodeLineEnd s then DecodeCommand E (s\<lparr>commandStart := commandEnd s\<rparr>)
      else Init (s\<lparr>g53Active := False\<rparr>))"


subsection \<open>Seen\<close>

text \<open>
  The \<^verbatim>\<open>for\<close> loop of \<^verbatim>\<open>Seen\<close>; \<open>p\<close> is \<^verbatim>\<open>readPointer\<close> while the loop runs.
\<close>

function SeenLoop :: "char \<Rightarrow> parser \<Rightarrow> nat \<Rightarrow> bool \<Rightarrow> nat \<Rightarrow> bool \<times> parser" where
  "SeenLoop c s p inQuotes inBrackets =
     (if p < commandEnd s then
        (let b = at (buffer s) p in
         if b = DQUOTE then SeenLoop c s (p + 1) (\<not> inQuotes) inBrackets
         else if \<not> inQuotes then
           (if inBrackets = 0 \<and> toupper b = c
               \<and> (c \<noteq> CHR ''E'' \<or> p = parameterStart s \<or> \<not> isdigit (at (buffer s) (p - 1)))
            then (True, s\<lparr>readPointer := int p + 1\<rparr>)
            else if b = CHR ''{'' then SeenLoop c s (p + 1) inQuotes (inBrackets + 1)
            else if b = CHR ''}'' \<and> inBrackets \<noteq> 0 then SeenLoop c s (p + 1) inQuotes (inBrackets - 1)
            else SeenLoop c s (p + 1) inQuotes inBrackets)
         else SeenLoop c s (p + 1) inQuotes inBrackets)
      else (False, s\<lparr>readPointer := -1\<rparr>))"
  by pat_completeness auto
termination
  by (relation "measure (\<lambda>(c, s, p, q, n). commandEnd s - p)") auto

declare SeenLoop.simps [simp del]

definition Seen :: "char \<Rightarrow> parser \<Rightarrow> bool \<times> parser" where
  "Seen c s = SeenLoop c s (parameterStart s) False 0"

subsection \<open>Expressions\<close>

text \<open>\<^verbatim>\<open>gb.buffer[readPointer]\<close>; the getters read it only where \<^verbatim>\<open>readPointer\<close> is not negative.\<close>

definition cur :: "parser \<Rightarrow> char" where
  "cur s = at (buffer s) (nat (readPointer s))"

definition advance :: "int \<Rightarrow> parser \<Rightarrow> parser" where
  "advance k s = s\<lparr>readPointer := readPointer s + k\<rparr>"

text \<open>The \<^verbatim>\<open>while\<close> loop of \<^verbatim>\<open>EvaluateExpression\<close> over the variable name: the position
  behind the name.\<close>

function VariableNameEnd :: "string \<Rightarrow> nat \<Rightarrow> nat \<Rightarrow> nat" where
  "VariableNameEnd b p numBrackets =
     (let c = at b p in
      if isalpha c \<or> isdigit c \<or> c = CHR ''_'' \<or> c = CHR ''.'' \<or> c = CHR ''(''
           \<or> (c = CHR '')'' \<and> numBrackets \<noteq> 0)
      then VariableNameEnd b (p + 1)
             (if c = CHR ''('' then numBrackets + 1
              else if c = CHR '')'' then numBrackets - 1 else numBrackets)
      else p)"
  by pat_completeness auto
termination
  by (relation "measure (\<lambda>(b, p, n). length b - p)")
     (auto simp: at_def isalpha_def isdigit_def lowercase_def uppercase_def split: if_splits)

declare VariableNameEnd.simps [simp del]

definition EvaluateExpression :: "'f env \<Rightarrow> parser \<Rightarrow> ParseException + ('f ExpressionValue \<times> parser)" where
  "EvaluateExpression E s0 =
     (let s = advance 1 s0 in
      if isalpha (cur s) then
        (let start = nat (readPointer s);
             e = VariableNameEnd (buffer s) start 0;
             s1 = s\<lparr>readPointer := int e\<rparr>;
             varName = take (e - start) (drop start (buffer s))
         in
         if length varName > maxVariableNameLength E then throw (readPointer s1) VariableNameTooLong
         else if cur s1 \<noteq> CHR ''}'' then throw (readPointer s1) ExpectedCloseBrace
         else Inr (GetObjectValue E varName, advance 1 s1))
      else throw (readPointer s) ExpectedVariableName)"

subsection \<open>Reading numbers\<close>

definition ReadFloatValue :: "'f env \<Rightarrow> parser \<Rightarrow> ParseException + ('f \<times> parser)" where
  "ReadFloatValue E s0 =
     (let s = advance 1 s0 in
      if cur s = CHR ''{'' then
        (case EvaluateExpression E (advance 1 s) of
           Inl e \<Rightarrow> Inl e
         | Inr (val, s1) \<Rightarrow>
             (case val of
                EVfloat f \<Rightarrow> Inr (f, s1)
              | EVint32 i \<Rightarrow> Inr (floatOfInt32 E i, s1)
              | EVuint32 u \<Rightarrow> Inr (floatOfUInt32 E u, s1)
              | _ \<Rightarrow> throw (readPointer s1) ExpectedFloat))
      else Inr (SafeStrtof E (cstring (buffer s) (nat (readPointer s))), s))"

definition ReadUIValue :: "'f env \<Rightarrow> parser \<Rightarrow> ParseException + (32 word \<times> parser)" where
  "ReadUIValue E s =
     (if cur s = CHR ''{'' then
        (case EvaluateExpression E s of
           Inl e \<Rightarrow> Inl e
         | Inr (val, s1) \<Rightarrow>
             (case val of
                EVuint32 u \<Rightarrow> Inr (u, s1)
              | EVint32 i \<Rightarrow> if 0 \<le> sint i then Inr (i, s1)
                             else throw (readPointer s1) ValueMustBeNonNegative
              | _ \<Rightarrow> throw (readPointer s1) ExpectedNonNegativeInteger))
      else
        (let (base, skipTrailingQuote, s1) =
               (if cur s = DQUOTE then
                  (let q = advance 1 s in
                   if cur q = CHR ''x'' \<or> cur q = CHR ''X'' then (16, 1, advance 1 q)
                   else if cur q = CHR ''0''
                           \<and> (cur (advance 1 q) = CHR ''x'' \<or> cur (advance 1 q) = CHR ''X'')
                     then (16, 1, advance 2 q)
                   else (10, 1, q))
                else (10, 0, s));
             (result, k) = SafeStrtoul E base (cstring (buffer s1) (nat (readPointer s1)))
         in Inr (result, advance (int k + skipTrailingQuote) s1)))"

definition ReadIValue :: "'f env \<Rightarrow> parser \<Rightarrow> ParseException + (32 word \<times> parser)" where
  "ReadIValue E s =
     (if cur s = CHR ''{'' then
        (case EvaluateExpression E s of
           Inl e \<Rightarrow> Inl e
         | Inr (val, s1) \<Rightarrow>
             (case val of
                EVint32 i \<Rightarrow> Inr (i, s1)
              | EVuint32 u \<Rightarrow> Inr (u, s1)
              | _ \<Rightarrow> throw (readPointer s1) ExpectedInteger))
      else
        (let (val, k) = SafeStrtol E (cstring (buffer s) (nat (readPointer s)))
         in Inr (val, advance (int k) s)))"

text \<open>
  \<^verbatim>\<open>DriverId\<close>; \<open>supportCan\<close> is the compile-time switch \<^verbatim>\<open>SUPPORT_CAN_EXPANSION\<close>.
  Modelled from the spec: both fields are bytes, and without CAN the board address is 0.
\<close>

record DriverId =
  boardAddress :: "8 word"
  localDriver :: "8 word"

definition ReadDriverIdValue :: "bool \<Rightarrow> 'f env \<Rightarrow> parser \<Rightarrow> ParseException + (DriverId \<times> parser)" where
  "ReadDriverIdValue supportCan E s =
     (case ReadUIValue E s of
        Inl e \<Rightarrow> Inl e
      | Inr (v1, s1) \<Rightarrow>
          if supportCan \<and> cur s1 = CHR ''.'' then
            (case ReadUIValue E (advance 1 s1) of
               Inl e \<Rightarrow> Inl e
             | Inr (v2, s2) \<Rightarrow> Inr (\<lparr>boardAddress = ucast v1, localDriver = ucast v2\<rparr>, s2))
          else Inr (\<lparr>boardAddress = 0, localDriver = ucast v1\<rparr>, s1))"

subsection \<open>The scalar getters\<close>

definition finish :: "ParseException + ('a \<times> parser) \<Rightarrow> ParseException + ('a \<times> parser)" where
  "finish r = (case r of Inl e \<Rightarrow> Inl e | Inr (v, s) \<Rightarrow> Inr (v, s\<lparr>readPointer := -1\<rparr>))"

definition GetFValue :: "'f env \<Rightarrow> parser \<Rightarrow> ParseException + ('f \<times> parser)" where
  "GetFValue E s =
     (if readPointer s > 0 then finish (ReadFloatValue E s) else throw (readPointer s) Internal)"

definition GetIValue :: "'f env \<Rightarrow> parser \<Rightarrow> ParseException + (32 word \<times> parser)" where
  "GetIValue E s =
     (if readPointer s > 0 then finish (ReadIValue E s) else throw (readPointer s) Internal)"

definition GetUIValue :: "'f env \<Rightarrow> parser \<Rightarrow> ParseException + (32 word \<times> parser)" where
  "GetUIValue E s =
     (if readPointer s > 0 then finish (ReadUIValue E s) else throw (readPointer s) Internal)"

definition GetDriverId :: "bool \<Rightarrow> 'f env \<Rightarrow> parser \<Rightarrow> ParseException + (DriverId \<times> parser)" where
  "GetDriverId supportCan E s =
     (if readPointer s > 0 then finish (ReadDriverIdValue supportCan E s)
      else throw (readPointer s) Internal)"


subsection \<open>The array getters\<close>

text \<open>
  The \<^verbatim>\<open>for (;;)\<close> loop that the four array getters share word for word, but for the
  function that reads one element. \<open>n\<close> is \<^verbatim>\<open>returnedLength\<close> on entry, \<open>arr\<close> the caller's
  array, which has at least \<open>n\<close> elements.
\<close>

function ReadArray ::
  "(parser \<Rightarrow> ParseException + ('a \<times> parser)) \<Rightarrow> nat \<Rightarrow> 'a list \<Rightarrow> nat \<Rightarrow> parser
    \<Rightarrow> ParseException + ('a list \<times> nat \<times> parser)" where
  "ReadArray rd n arr len s =
     (if len \<ge> n then throw (readPointer s) (ArrayTooLong n)
      else
        (case rd s of
           Inl e \<Rightarrow> Inl e
         | Inr (v, s1) \<Rightarrow>
             if cur s1 \<noteq> CHR '':'' then Inr (arr[len := v], len + 1, s1)
             else ReadArray rd n (arr[len := v]) (len + 1) (advance 1 s1)))"
  by pat_completeness auto
termination
  by (relation "measure (\<lambda>(rd, n, arr, len, s). n - len)") auto

declare ReadArray.simps [simp del]

text \<open>
  What follows the loop in the three getters that pad: \<open>n\<close> is \<^verbatim>\<open>returnedLength\<close> on entry,
  the result holds the array, \<^verbatim>\<open>returnedLength\<close> and the parser on return.
\<close>

definition PadArray :: "bool \<Rightarrow> nat \<Rightarrow> 'a list \<times> nat \<times> parser \<Rightarrow> 'a list \<times> nat \<times> parser" where
  "PadArray doPad n r =
     (case r of (arr, len, s) \<Rightarrow>
        if doPad \<and> len = 1 \<and> n > 1
        then (foldl (\<lambda>a i. a[i := a ! 0]) arr [1..<n], n, s\<lparr>readPointer := -1\<rparr>)
        else (arr, len, s\<lparr>readPointer := -1\<rparr>))"

definition GetFloatArray ::
  "'f env \<Rightarrow> 'f list \<Rightarrow> nat \<Rightarrow> bool \<Rightarrow> parser \<Rightarrow> ParseException + ('f list \<times> nat \<times> parser)" where
  "GetFloatArray E arr returnedLength doPad s =
     (if readPointer s > 0
      then map_sum id (PadArray doPad returnedLength) (ReadArray (ReadFloatValue E) returnedLength arr 0 s)
      else throw (readPointer s) Internal)"

definition GetIntArray ::
  "'f env \<Rightarrow> 32 word list \<Rightarrow> nat \<Rightarrow> bool \<Rightarrow> parser
    \<Rightarrow> ParseException + (32 word list \<times> nat \<times> parser)" where
  "GetIntArray E arr returnedLength doPad s =
     (if readPointer s > 0
      then map_sum id (PadArray doPad returnedLength) (ReadArray (ReadIValue E) returnedLength arr 0 s)
      else throw (readPointer s) Internal)"

definition GetUnsignedArray ::
  "'f env \<Rightarrow> 32 word list \<Rightarrow> nat \<Rightarrow> bool \<Rightarrow> parser
    \<Rightarrow> ParseException + (32 word list \<times> nat \<times> parser)" where
  "GetUnsignedArray E arr returnedLength doPad s =
     (if readPointer s > 0
      then map_sum id (PadArray doPad returnedLength) (ReadArray (ReadUIValue E) returnedLength arr 0 s)
      else throw (readPointer s) Internal)"

definition GetDriverIdArray ::
  "bool \<Rightarrow> 'f env \<Rightarrow> DriverId list \<Rightarrow> nat \<Rightarrow> parser
    \<Rightarrow> ParseException + (DriverId list \<times> nat \<times> parser)" where
  "GetDriverIdArray supportCan E arr returnedLength s =
     (if readPointer s > 0
      then map_sum id (\<lambda>(a, len, s1). (a, len, s1\<lparr>readPointer := -1\<rparr>))
             (ReadArray (ReadDriverIdValue supportCan E) returnedLength arr 0 s)
      else throw (readPointer s) Internal)"

subsection \<open>The string getters\<close>

text \<open>
  A \<^verbatim>\<open>StringRef\<close> is the text it holds; \<open>cap\<close> is its capacity. \<^verbatim>\<open>cat\<close> drops what does
  not fit, and \<^verbatim>\<open>copy\<close> and \<^verbatim>\<open>printf\<close> truncate.
\<close>

definition cat :: "nat \<Rightarrow> string \<Rightarrow> char \<Rightarrow> string" where
  "cat cap str c = (if length str < cap then str @ [c] else str)"

definition StripTrailingSpaces :: "string \<Rightarrow> string" where
  "StripTrailingSpaces str = rev (dropWhile (\<lambda>c. c = CHR '' '') (rev str))"

definition GetStringExpression :: "'f env \<Rightarrow> nat \<Rightarrow> parser \<Rightarrow> ParseException + (string \<times> parser)" where
  "GetStringExpression E cap s =
     (case EvaluateExpression E s of
        Inl e \<Rightarrow> Inl e
      | Inr (val, s1) \<Rightarrow>
          (let copy = (\<lambda>t. Inr (take cap t, s1)) in
           case val of
             EVstring str \<Rightarrow> copy str
           | EVfloat f \<Rightarrow> copy (printfFloat E 1 f)
           | EVFloat2 f \<Rightarrow> copy (printfFloat E 2 f)
           | EVFloat3 f \<Rightarrow> copy (printfFloat E 3 f)
           | EVuint32 u \<Rightarrow> copy (decimal (unat u))
           | EVint32 i \<Rightarrow> copy (if sint i < 0 then CHR ''-'' # decimal (nat (- sint i))
                                  else decimal (nat (sint i)))
           | EVbool b \<Rightarrow> copy (if b then ''true'' else ''false'')
           | EVIPAddress a \<Rightarrow> copy (IP4String E a)
           | EVother \<Rightarrow> throw (readPointer s1) StringValueExpected))"

text \<open>
  The loop of \<^verbatim>\<open>InternalGetQuotedString\<close>: \<open>p\<close> is \<^verbatim>\<open>readPointer\<close>, the result the string
  and \<^verbatim>\<open>readPointer\<close> on return.
\<close>

function QuotedLoop :: "nat \<Rightarrow> string \<Rightarrow> nat \<Rightarrow> string \<Rightarrow> ParseException + (string \<times> nat)" where
  "QuotedLoop cap b p str =
     (let c = at b p; p1 = p + 1 in
      if c < CHR '' '' then throw (int p1) ControlCharInString
      else if c = DQUOTE then
        (if at b p1 \<noteq> DQUOTE then Inr (str, p1 + 1)
         else QuotedLoop cap b (p1 + 1) (cat cap str c))
      else if c = SQUOTE then
        (if isalpha (at b p1) then QuotedLoop cap b (p1 + 1) (cat cap str (tolower (at b p1)))
         else if at b p1 = c then QuotedLoop cap b (p1 + 1) (cat cap str c)
         else QuotedLoop cap b p1 (cat cap str c))
      else QuotedLoop cap b p1 (cat cap str c))"
  by pat_completeness auto
termination
  by (relation "measure (\<lambda>(cap, b, p, str). length b - p)")
     (auto simp: at_def less_char_def split: if_splits)

declare QuotedLoop.simps [simp del]

definition InternalGetQuotedString :: "nat \<Rightarrow> parser \<Rightarrow> ParseException + (string \<times> parser)" where
  "InternalGetQuotedString cap s =
     (case QuotedLoop cap (buffer s) (nat (readPointer s + 1)) [] of
        Inl e \<Rightarrow> Inl e
      | Inr (str, p) \<Rightarrow> Inr (str, s\<lparr>readPointer := int p\<rparr>))"

definition GetQuotedString :: "'f env \<Rightarrow> nat \<Rightarrow> parser \<Rightarrow> ParseException + (string \<times> parser)" where
  "GetQuotedString E cap s =
     (if readPointer s > 0 then
        (if cur s = DQUOTE then InternalGetQuotedString cap s
         else if cur s = CHR ''{'' then GetStringExpression E cap s
         else throw (readPointer s) StringExpressionExpected)
      else throw (readPointer s) Internal)"

text \<open>The loop of \<^verbatim>\<open>InternalGetPossiblyQuotedString\<close> over the rest of the line.\<close>

function RestOfLine :: "nat \<Rightarrow> string \<Rightarrow> nat \<Rightarrow> string \<Rightarrow> string \<times> nat" where
  "RestOfLine cap b p str =
     (let c = at b p in
      if c < CHR '' '' then (str, p + 1) else RestOfLine cap b (p + 1) (cat cap str c))"
  by pat_completeness auto
termination
  by (relation "measure (\<lambda>(cap, b, p, str). length b - p)")
     (auto simp: at_def less_char_def split: if_splits)

declare RestOfLine.simps [simp del]

text \<open>
  \<^verbatim>\<open>InternalGetPossiblyQuotedString\<close>: neither \<^verbatim>\<open>if\<close> returns, so the rest of the line is
  appended to what the quoted string or the expression left in \<open>str\<close>.
\<close>

definition InternalGetPossiblyQuotedString ::
  "'f env \<Rightarrow> nat \<Rightarrow> bool \<Rightarrow> parser \<Rightarrow> ParseException + (string \<times> parser)" where
  "InternalGetPossiblyQuotedString E cap allowEmpty s =
     (case (if cur s = DQUOTE then InternalGetQuotedString cap s else Inr ([], s)) of
        Inl e \<Rightarrow> Inl e
      | Inr (str1, s1) \<Rightarrow>
          (case (if cur s1 = CHR ''{'' then GetStringExpression E cap s1 else Inr (str1, s1)) of
             Inl e \<Rightarrow> Inl e
           | Inr (str2, s2) \<Rightarrow>
               (let s3 = s2\<lparr>commandEnd := gcodeLineEnd s2\<rparr>;
                    (str3, p) = RestOfLine cap (buffer s3) (nat (readPointer s3)) str2;
                    s4 = s3\<lparr>readPointer := int p\<rparr>;
                    str4 = StripTrailingSpaces str3
                in
                if \<not> allowEmpty \<and> str4 = [] then throw (readPointer s4) NonEmptyStringExpected
                else Inr (str4, s4))))"

text \<open>
  \<^verbatim>\<open>GetPossiblyQuotedString\<close>: the \<^verbatim>\<open>if\<close> does not return, so \<^verbatim>\<open>THROW_INTERNAL_ERROR\<close>
  is reached on every path that has not thrown before.
\<close>

definition GetPossiblyQuotedString :: "'f env \<Rightarrow> nat \<Rightarrow> parser \<Rightarrow> ParseException + (string \<times> parser)" where
  "GetPossiblyQuotedString E cap s =
     (case (if readPointer s > 0 then InternalGetPossiblyQuotedString E cap False s else Inr ([], s)) of
        Inl e \<Rightarrow> Inl e
      | Inr (str, s1) \<Rightarrow> throw (readPointer s1) Internal)"

function ReducedLoop :: "nat \<Rightarrow> string \<Rightarrow> nat \<Rightarrow> string \<Rightarrow> ParseException + (string \<times> nat)" where
  "ReducedLoop cap b p str =
     (let c = at b p; p1 = p + 1 in
      if c = DQUOTE then
        (if at b p1 \<noteq> DQUOTE then Inr (str, p1 + 1)
         else ReducedLoop cap b (p1 + 1) (cat cap str c))
      else if c = CHR ''_'' \<or> c = CHR ''-'' \<or> c = CHR '' '' then ReducedLoop cap b p1 str
      else if c < CHR '' '' then throw (int p1) ControlCharInString
      else ReducedLoop cap b p1 (cat cap str (tolower c)))"
  by pat_completeness auto
termination
  by (relation "measure (\<lambda>(cap, b, p, str). length b - p)")
     (auto simp: at_def less_char_def split: if_splits)

declare ReducedLoop.simps [simp del]

definition GetReducedString :: "nat \<Rightarrow> parser \<Rightarrow> ParseException + (string \<times> parser)" where
  "GetReducedString cap s =
     (if readPointer s > 0 then
        (if cur s \<noteq> DQUOTE then throw (readPointer s) StringExpected
         else
           (case ReducedLoop cap (buffer s) (nat (readPointer s + 1)) [] of
              Inl e \<Rightarrow> Inl e
            | Inr (str, p) \<Rightarrow> Inr (str, s\<lparr>readPointer := int p\<rparr>)))
      else throw (readPointer s) Internal)"

function SkipSpaces :: "string \<Rightarrow> nat \<Rightarrow> nat \<Rightarrow> nat" where
  "SkipSpaces b e p =
     (if p < e \<and> (at b p = CHR '' '' \<or> at b p = TAB) then SkipSpaces b e (p + 1) else p)"
  by pat_completeness auto
termination
  by (relation "measure (\<lambda>(b, e, p). e - p)") auto

declare SkipSpaces.simps [simp del]

definition GetUnprecedentedString ::
  "'f env \<Rightarrow> nat \<Rightarrow> bool \<Rightarrow> parser \<Rightarrow> ParseException + (string \<times> parser)" where
  "GetUnprecedentedString E cap allowEmpty s =
     InternalGetPossiblyQuotedString E cap allowEmpty
       (s\<lparr>readPointer := int (SkipSpaces (buffer s) (commandEnd s) (parameterStart s))\<rparr>)"

subsection \<open>IP and MAC addresses\<close>

text \<open>
  The loop of \<^verbatim>\<open>GetIPAddress\<close>: \<open>p\<close> is the pointer into the buffer, \<open>ip\<close> the bytes
  stored so far (\<^verbatim>\<open>n\<close> is their number). The getter sets \<^verbatim>\<open>readPointer\<close> to -1 before it
  throws.
\<close>

function IPLoop :: "'f env \<Rightarrow> string \<Rightarrow> nat \<Rightarrow> 8 word list \<Rightarrow> ParseException + 8 word list" where
  "IPLoop E b p ip =
     (let (v, k) = SafeStrtoul E 10 (cstring b p) in
      if k = 0 \<or> v > 255 then throw (-1) InvalidIP
      else
        (let ip1 = ip @ [ucast v]; p1 = p + k in
         if at b p1 \<noteq> CHR ''.'' then Inr ip1
         else if length ip1 = 4 then throw (-1) InvalidIP
         else IPLoop E b (p1 + 1) ip1))"
  by pat_completeness auto
termination
  by (relation "measure (\<lambda>(E, b, p, ip). length b - p)")
     (auto simp: at_def split: if_splits)

declare IPLoop.simps [simp del]

definition GetIPAddress :: "'f env \<Rightarrow> parser \<Rightarrow> ParseException + (8 word list \<times> parser)" where
  "GetIPAddress E s =
     (if readPointer s \<le> 0 then throw (readPointer s) Internal
      else
        (case IPLoop E (buffer s) (nat (readPointer s)) [] of
           Inl e \<Rightarrow> Inl e
         | Inr ip \<Rightarrow>
             if length ip \<noteq> 4 then throw (-1) InvalidIP
             else Inr (ip, s\<lparr>readPointer := -1\<rparr>)))"

text \<open>The loop of \<^verbatim>\<open>GetMacAddress\<close>, likewise.\<close>

function MacLoop :: "'f env \<Rightarrow> string \<Rightarrow> nat \<Rightarrow> 8 word list \<Rightarrow> ParseException + 8 word list" where
  "MacLoop E b p mac =
     (let (v, k) = SafeStrtoul E 16 (cstring b p) in
      if k = 0 \<or> v > 255 then throw (-1) InvalidMAC
      else
        (let mac1 = mac @ [ucast v]; p1 = p + k in
         if at b p1 \<noteq> CHR '':'' then Inr mac1
         else if length mac1 = 6 then throw (-1) InvalidMAC
         else MacLoop E b (p1 + 1) mac1))"
  by pat_completeness auto
termination
  by (relation "measure (\<lambda>(E, b, p, mac). length b - p)")
     (auto simp: at_def split: if_splits)

declare MacLoop.simps [simp del]

definition GetMacAddress :: "'f env \<Rightarrow> parser \<Rightarrow> ParseException + (8 word list \<times> parser)" where
  "GetMacAddress E s =
     (if readPointer s \<le> 0 then throw (readPointer s) Internal
      else
        (case MacLoop E (buffer s) (nat (readPointer s)) [] of
           Inl e \<Rightarrow> Inl e
         | Inr mac \<Rightarrow>
             if length mac \<noteq> 6 then throw (-1) InvalidMAC
             else Inr (mac, s\<lparr>readPointer := -1\<rparr>)))"


subsection \<open>Notions of the specification\<close>

text \<open>Bytes fed to \<^verbatim>\<open>Put\<close> one at a time, whatever each call returns.\<close>

fun PutBytes :: "'f env \<Rightarrow> string \<Rightarrow> parser \<Rightarrow> ParseException + parser" where
  "PutBytes E [] s = Inr s"
| "PutBytes E (c # cs) s =
     (case Put E c s of Inl e \<Rightarrow> Inl e | Inr (r, s1) \<Rightarrow> PutBytes E cs s1)"

text \<open>The XOR of the bytes of a text.\<close>

definition xor_bytes :: "string \<Rightarrow> 8 word" where
  "xor_bytes bs = foldl (\<lambda>a c. a XOR of_char c) 0 bs"

text \<open>
  The states of the ingest machine in which the line has neither reached its checksum nor
  been given up.
\<close>

fun assembling :: "GCodeBufferState \<Rightarrow> bool" where
  "assembling parsingChecksum = False"
| "assembling discarding = False"
| "assembling ready = False"
| "assembling st = True"

text \<open>
  The specification of \<^verbatim>\<open>Seen\<close>. Scanning the parameters from \<^verbatim>\<open>parameterStart\<close>, a double
  quote opens or closes a string; outside strings an opening brace deepens the nesting and
  a closing brace inside braces ends one level. \<open>scan_before s i\<close> is whether position \<open>i\<close>
  is inside a string, and the brace depth there.
\<close>

definition scan_step :: "bool \<times> nat \<Rightarrow> char \<Rightarrow> bool \<times> nat" where
  "scan_step st b =
     (case st of (q, d) \<Rightarrow>
        if b = DQUOTE then (\<not> q, d)
        else if q then (q, d)
        else if b = CHR ''{'' then (q, d + 1)
        else if b = CHR ''}'' \<and> d \<noteq> 0 then (q, d - 1)
        else (q, d))"

definition scan_before :: "parser \<Rightarrow> nat \<Rightarrow> bool \<times> nat" where
  "scan_before s i = foldl scan_step (False, 0) (map (at (buffer s)) [parameterStart s..<i])"

text \<open>
  Position \<open>i\<close> holds the letter \<open>c\<close> in upper or lower case, outside double quotes and at
  brace depth 0.
\<close>

definition letter_at :: "parser \<Rightarrow> char \<Rightarrow> nat \<Rightarrow> bool" where
  "letter_at s c i = (scan_before s i = (False, 0) \<and> toupper (at (buffer s) i) = c)"

text \<open>
  An occurrence as the claim words it: an \<open>E\<close> whose preceding character is a digit does
  not count.
\<close>

definition occurs_as_claimed :: "parser \<Rightarrow> char \<Rightarrow> nat \<Rightarrow> bool" where
  "occurs_as_claimed s c i =
     (letter_at s c i \<and> (if c = CHR ''E'' then \<not> isdigit (at (buffer s) (i - 1)) else True))"

text \<open>
  An occurrence as the code has it: the \<open>E\<close> at \<^verbatim>\<open>parameterStart\<close> itself counts whatever
  precedes it.
\<close>

definition occurs :: "parser \<Rightarrow> char \<Rightarrow> nat \<Rightarrow> bool" where
  "occurs s c i =
     (letter_at s c i
      \<and> (if c = CHR ''E'' \<and> i \<noteq> parameterStart s then \<not> isdigit (at (buffer s) (i - 1)) else True))"

text \<open>
  The text behind an opening double quote has no closing quote: scanning it from the left,
  every double quote is the first of a doubled pair.
\<close>

fun no_closing_quote :: "string \<Rightarrow> bool" where
  "no_closing_quote [] = True"
| "no_closing_quote [c] = (c \<noteq> DQUOTE)"
| "no_closing_quote (c # d # cs) =
     (if c = DQUOTE then d = DQUOTE \<and> no_closing_quote cs else no_closing_quote (d # cs))"

text \<open>The bytes of the buffer from position \<open>i\<close> up to, not including, position \<open>j\<close>.\<close>

definition span :: "string \<Rightarrow> nat \<Rightarrow> nat \<Rightarrow> string" where
  "span b i j = map (at b) [i..<j]"

subsection \<open>An environment for the examples\<close>

text \<open>
  Modelled from the spec: \<^verbatim>\<open>SafeStrtoul\<close> and \<^verbatim>\<open>SafeStrtol\<close> are not among the sources;
  the spec calls them strtoul- and strtol-equivalent. The examples read the longest prefix
  of digits of the base, after an optional sign for \<^verbatim>\<open>SafeStrtol\<close>.
\<close>

definition digit_in :: "nat \<Rightarrow> char \<Rightarrow> nat option" where
  "digit_in base c =
     (case map_of (zip ''0123456789abcdef'' [0..<16]) (tolower c) of
        Some d \<Rightarrow> if d < base then Some d else None
      | None \<Rightarrow> None)"

fun digits_from :: "nat \<Rightarrow> string \<Rightarrow> nat \<Rightarrow> nat \<Rightarrow> nat \<times> nat" where
  "digits_from base [] acc k = (acc, k)"
| "digits_from base (c # cs) acc k =
     (case digit_in base c of
        None \<Rightarrow> (acc, k)
      | Some d \<Rightarrow> digits_from base cs (acc * base + d) (k + 1))"

definition example_strtoul :: "nat \<Rightarrow> string \<Rightarrow> 32 word \<times> nat" where
  "example_strtoul base str = (case digits_from base str 0 0 of (v, k) \<Rightarrow> (of_nat v, k))"

definition example_strtol :: "string \<Rightarrow> 32 word \<times> nat" where
  "example_strtol str =
     (case str of
        c # cs \<Rightarrow>
          if c = CHR ''-'' then
            (case digits_from 10 cs 0 0 of (v, k) \<Rightarrow> if k = 0 then (0, 0) else (- of_nat v, k + 1))
          else (case digits_from 10 str 0 0 of (v, k) \<Rightarrow> (of_nat v, k))
      | [] \<Rightarrow> (0, 0))"

text \<open>
  Floating point is left out: in the example environment \<^verbatim>\<open>float\<close> is the unit type. The
  axis letters are \<open>XYZ\<close>, the machine is a CNC machine, and the object model answers
  every name with the Boolean \<open>true\<close>.
\<close>

definition example_env :: "unit env" where
  "example_env =
     \<lparr>axisLetters = ''XYZ'', machineIsCnc = True, maxVariableNameLength = 100,
      GetObjectValue = (\<lambda>name. EVbool True), SafeStrtof = (\<lambda>str. ()),
      SafeStrtol = example_strtol, SafeStrtoul = example_strtoul,
      floatOfInt32 = (\<lambda>i. ()), floatOfUInt32 = (\<lambda>u. ()),
      printfFloat = (\<lambda>n f. ''0''), IP4String = (\<lambda>a. ''0.0.0.0'')\<rparr>"


text \<open>A line whose quoted string is not closed, as \<^verbatim>\<open>Put\<close> and \<^verbatim>\<open>DecodeCommand\<close> leave it.\<close>

definition unterminated_line :: parser where
  "unterminated_line = projr (PutString example_env ''M117 P\"ab\"\"d'' (StringParser 24))"

text \<open>More decoded lines: each is what \<^verbatim>\<open>Put\<close> leaves of the text in a new parser.\<close>

definition compact_line :: parser where
  "compact_line = projr (PutString example_env ''G1E5'' (StringParser 8))"

definition quoted_line :: parser where
  "quoted_line = projr (PutString example_env ''M117 P\"abc\"'' (StringParser 16))"

definition array_line :: parser where
  "array_line = projr (PutString example_env ''G1 X10:20:30'' (StringParser 16))"

definition brace_line :: parser where
  "brace_line = projr (PutString example_env ''G1 X1{ab}'' (StringParser 16))"

definition negative_G_line :: parser where
  "negative_G_line = projr (PutString example_env ''G-1 X5'' (StringParser 8))"

definition tail_line :: parser where
  "tail_line = projr (PutString example_env ''M117 P\"ab\" cd'' (StringParser 16))"

definition resend_line :: "ParseException + (bool \<times> parser)" where
  "resend_line = PutChars example_env ''N5 G1 X1*99'' (Init (StringParser 16))"

definition long_resend_line :: "ParseException + (bool \<times> parser)" where
  "long_resend_line = PutChars example_env ''N5 G1 X100 Y200 G28*99'' (Init (StringParser 24))"

text \<open>A new parser that executes a file.\<close>

definition file_parser :: parser where
  "file_parser = (StringParser 8)\<lparr>doingFile := True\<rparr>"

section \<open>Evaluation\<close>

text \<open>Rules that let the simplifier run the model on a concrete buffer.\<close>

lemma at_Nil: "at [] i = NUL"
  by (simp add: at_def)

lemma at_Cons: "at (x # xs) i = (if i = 0 then x else at xs (i - 1))"
  by (cases i) (auto simp: at_def)

lemma list_update_Cons_if: "(x # xs)[i := y] = (if i = 0 then y # xs else x # xs[i - 1 := y])"
  by (cases i) auto

lemma replicate_if: "replicate n x = (if n = 0 then [] else x # replicate (n - 1) x)"
  by (cases n) auto

lemma PutChars_Cons_if:
  "PutChars E (c # cs) s =
     (if isl (Put E c s) then Inl (projl (Put E c s))
      else if fst (projr (Put E c s)) then Inr (True, snd (projr (Put E c s)))
      else PutChars E cs (snd (projr (Put E c s))))"
  by (cases "Put E c s") (auto simp: PutChars.simps)

lemmas eval_simps =
  PutChars.simps(1) PutChars_Cons_if
  Put_def PutString_def LineFinished_def LineAccepted_def DecodeCommand_def Init_def
  StringParser_def AddToChecksum_def StoreAndAddToChecksum_def SafeSnprintf_def decimal.simps
  isdigit_def isalpha_def toupper_def tolower_def lowercase_def uppercase_def digitval_def
  Let_def at_Nil at_Cons list_update_Cons_if replicate_if strchr_found_def
  FindCommandEnd.simps ReadCommandNumber.simps example_env_def

lemmas getter_simps =
  StringParser_def Init_def cur_def at_Cons at_Nil replicate_if Let_def throw_def cat_def advance_def
  isdigit_def isalpha_def toupper_def tolower_def lowercase_def uppercase_def less_char_def

lemma drop_Cons_if: "drop n (x # xs) = (if n = 0 then x # xs else drop (n - 1) xs)"
  by (cases n) auto

lemma take_Cons_if: "take n (x # xs) = (if n = 0 then [] else x # take (n - 1) xs)"
  by (cases n) auto

lemmas file_simps =
  ProcessConditionalGCode_def CreateBlocks.simps EndBlocks.simps CreateBlock_def EndBlock_def
  indentLevel_def CountLowercase.simps cstring_def StringStartsWith_def consumed_def
  ProcessIfCommand_def ProcessVarCommand_def ProcessElseCommand_def ProcessWhileCommand_def
  EvaluateCondition_def NoIndentSkip_def less_eq_char_def throw_def file_parser_def
  drop_Cons_if take_Cons_if

lemmas number_simps =
  ReadArray.simps PadArray_def ReadFloatValue_def ReadIValue_def ReadUIValue_def finish_def
  example_env_def example_strtol_def example_strtoul_def digits_from.simps digit_in_def
  cstring_def drop_Cons_if take_Cons_if EvaluateExpression_def VariableNameEnd.simps
  upt_conv_Cons

section \<open>The checksum\<close>

text \<open>
  A step of the ingest machine that ends in a state where the line is still being
  assembled started in such a state and has added its byte to the checksum.
\<close>

lemma PutLoop_assembling:
  "assembling (bufferState (PutLoop st c s)) \<Longrightarrow> bufferState s = st \<Longrightarrow>
     assembling st \<and> computedChecksum (PutLoop st c s) = computedChecksum s XOR of_char c"
  by (cases st) (auto simp: AddToChecksum_def StoreAndAddToChecksum_def Let_def split: if_splits)

lemma Put_assembling:
  assumes "c \<noteq> NUL" "c \<noteq> LF" "c \<noteq> CR" and "Put E c s = Inr (r, s')"
      and "assembling (bufferState s')"
  shows "assembling (bufferState s) \<and> computedChecksum s' = computedChecksum s XOR of_char c"
proof (cases "c = DEL \<and> bufferState s \<noteq> discarding")
  case True
  with assms(1-4) have "bufferState s' = discarding"
    by (auto simp: Put_def Let_def)
  with assms(5) show ?thesis by simp
next
  case False
  let ?s0 = "s\<lparr>commandLength := commandLength s + 1\<rparr>"
  from False assms(1-4) have s': "s' = PutLoop (bufferState ?s0) c ?s0"
    by (auto simp: Put_def Let_def)
  from assms(5) PutLoop_assembling[of "bufferState ?s0" c ?s0] s'
  show ?thesis by simp
qed

lemma PutBytes_checksum:
  "PutBytes E bs s = Inr s' \<Longrightarrow> \<forall>c\<in>set bs. c \<noteq> NUL \<and> c \<noteq> LF \<and> c \<noteq> CR \<Longrightarrow>
   assembling (bufferState s') \<Longrightarrow>
   assembling (bufferState s) \<and> computedChecksum s' = foldl (\<lambda>a c. a XOR of_char c) (computedChecksum s) bs"
proof (induction bs arbitrary: s)
  case Nil
  then show ?case by simp
next
  case (Cons c cs)
  from Cons.prems(1) obtain r s1 where p: "Put E c s = Inr (r, s1)" and rest: "PutBytes E cs s1 = Inr s'"
    by (auto split: sum.splits)
  from Cons.IH[OF rest] Cons.prems have a: "assembling (bufferState s1)"
    and c: "computedChecksum s' = foldl (\<lambda>a c. a XOR of_char c) (computedChecksum s1) cs" by auto
  from Put_assembling[OF _ _ _ p a] Cons.prems(2) have "assembling (bufferState s) \<and> computedChecksum s1 = computedChecksum s XOR of_char c"
    by simp
  with c show ?case by simp
qed

lemma Put_star:
  assumes "Put E (CHR ''*'') s = Inr (r, s')" and "bufferState s' = parsingChecksum"
  shows "assembling (bufferState s) \<and> computedChecksum s' = computedChecksum s \<and> hadChecksum s'"
  using assms
  by (cases "bufferState s")
     (auto simp: Put_def Let_def isdigit_def AddToChecksum_def StoreAndAddToChecksum_def
           split: if_splits)

text \<open>
  Claim C3. Feed the bytes \<open>bs\<close> of a line, none of them a line end, one at a time to a
  parser that \<^verbatim>\<open>Init\<close> has reset, and then a \<open>*\<close> that introduces the checksum (the
  machine is in the state \<open>parsingChecksum\<close> afterwards, which only the \<open>*\<close> case of the
  state \<open>parsingGCode\<close> enters). Then \<^verbatim>\<open>computedChecksum\<close> is the XOR of all of \<open>bs\<close>: the
  line number, the indentation, comments in brackets, quoted strings and the bytes that
  did not fit into the buffer included.
\<close>

theorem checksum_at_star:
  assumes "\<forall>c\<in>set bs. c \<noteq> NUL \<and> c \<noteq> LF \<and> c \<noteq> CR"
      and "PutBytes E bs (Init s0) = Inr s"
      and "Put E (CHR ''*'') s = Inr (r, s')"
      and "bufferState s' = parsingChecksum"
  shows "computedChecksum s' = xor_bytes bs \<and> hadChecksum s'"
proof -
  from Put_star[OF assms(3,4)] have a: "assembling (bufferState s)"
    and c: "computedChecksum s' = computedChecksum s" and h: "hadChecksum s'" by auto
  from PutBytes_checksum[OF assms(2,1) a]
  have "computedChecksum s = foldl (\<lambda>a c. a XOR of_char c) (computedChecksum (Init s0)) bs" by simp
  with c h show ?thesis by (simp add: xor_bytes_def Init_def)
qed

text \<open>The bytes of a line are always accepted: the premise of C3 about \<open>PutBytes\<close> can be met.\<close>

lemma PutBytes_returns:
  "\<forall>c\<in>set bs. c \<noteq> NUL \<and> c \<noteq> LF \<and> c \<noteq> CR \<Longrightarrow> \<exists>s'. PutBytes E bs s = Inr s'"
  by (induction bs arbitrary: s) (auto simp: Put_def Let_def)

theorem checksum_at_star_witness:
  "computedChecksum (snd (projr (Put example_env (CHR ''*'')
       (projr (PutBytes example_env ''n7 (*) G1 \"*\"'' (Init (StringParser 16)))))))
     = xor_bytes ''n7 (*) G1 \"*\"''"
proof -
  let ?bs = "''n7 (*) G1 \"*\"''"
  let ?r = "PutBytes example_env ?bs (Init (StringParser 16))"
  have e: "\<forall>c\<in>set ?bs. c \<noteq> NUL \<and> c \<noteq> LF \<and> c \<noteq> CR" by simp
  have r: "?r = Inr (projr ?r)"
    by (simp add: Put_def Init_def StringParser_def AddToChecksum_def StoreAndAddToChecksum_def
          isdigit_def Let_def)
  have p: "Put example_env (CHR ''*'') (projr ?r)
            = Inr (fst (projr (Put example_env (CHR ''*'') (projr ?r))), snd (projr (Put example_env (CHR ''*'') (projr ?r))))"
    by (simp add: Put_def Init_def StringParser_def AddToChecksum_def StoreAndAddToChecksum_def
          isdigit_def Let_def)
  have st: "bufferState (snd (projr (Put example_env (CHR ''*'') (projr ?r)))) = parsingChecksum"
    by (simp add: Put_def Init_def StringParser_def AddToChecksum_def StoreAndAddToChecksum_def
          isdigit_def Let_def)
  from checksum_at_star[OF e r p st] show ?thesis by simp
qed



section \<open>Quoted strings without a closing quote\<close>

text \<open>When \<^verbatim>\<open>Seen\<close> finds the letter it changes \<^verbatim>\<open>readPointer\<close> only, to a positive value.\<close>

lemma SeenLoop_True:
  "SeenLoop c s p q n = (True, s') \<Longrightarrow>
     \<exists>i. p \<le> i \<and> i < commandEnd s \<and> s' = s\<lparr>readPointer := int i + 1\<rparr>"
proof (induction "commandEnd s - p" arbitrary: p q n)
  case 0
  then show ?case by (subst (asm) SeenLoop.simps) simp
next
  case (Suc k)
  from Suc.prems have
    "s' = s\<lparr>readPointer := int p + 1\<rparr> \<or> (\<exists>q' n'. SeenLoop c s (p + 1) q' n' = (True, s'))"
    by (subst (asm) SeenLoop.simps) (auto simp: Let_def split: if_splits)
  then show ?case
  proof
    assume "s' = s\<lparr>readPointer := int p + 1\<rparr>"
    with Suc.hyps(2) show ?thesis by (intro exI[of _ p]) simp
  next
    assume "\<exists>q' n'. SeenLoop c s (p + 1) q' n' = (True, s')"
    then obtain q' n' where "SeenLoop c s (p + 1) q' n' = (True, s')" by blast
    moreover from Suc.hyps(2) have "k = commandEnd s - (p + 1)" by simp
    ultimately
    obtain i where "p + 1 \<le> i" "i < commandEnd s" "s' = s\<lparr>readPointer := int i + 1\<rparr>"
      using Suc.hyps(1) by blast
    then show ?thesis by (intro exI[of _ i]) simp
  qed
qed

lemma Seen_True:
  assumes "Seen c s0 = (True, s)"
  shows "0 < readPointer s \<and> buffer s = buffer s0 \<and> gcodeLineEnd s = gcodeLineEnd s0"
  using SeenLoop_True[of c s0 "parameterStart s0" False 0 s] assms
  by (auto simp: Seen_def)

text \<open>\<^verbatim>\<open>InternalGetQuotedString\<close> on a text without a closing quote runs into the NUL.\<close>

lemma no_closing_quote_Cons:
  "no_closing_quote (c # cs) =
     (if c = DQUOTE then (\<exists>ds. cs = DQUOTE # ds \<and> no_closing_quote ds) else no_closing_quote cs)"
  by (cases cs) auto

lemma span_Cons: "i < j \<Longrightarrow> span b i j = at b i # span b (Suc i) j"
  by (simp add: span_def upt_conv_Cons)

lemma span_Nil: "j \<le> i \<Longrightarrow> span b i j = []"
  by (simp add: span_def)

lemma QuotedLoop_unterminated:
  "e < length b \<Longrightarrow> b ! e = NUL \<Longrightarrow> p \<le> e \<Longrightarrow> no_closing_quote (span b p e) \<Longrightarrow>
     \<exists>q. QuotedLoop cap b p str = Inl (ParseException q ControlCharInString) \<and> q \<le> int e + 1"
proof (induction cap b p str rule: QuotedLoop.induct)
  case (1 cap b p str)
  show ?case
  proof (cases "p = e")
    case True
    with "1.prems" have "at b p = NUL" by (simp add: at_def)
    then show ?thesis using True
      by (subst QuotedLoop.simps) (simp add: Let_def throw_def less_char_def)
  next
    case False
    with "1.prems" have lt: "p < e" by simp
    then have sp: "span b p e = at b p # span b (Suc p) e" by (rule span_Cons)
    have nul: "at b e = NUL" using "1.prems" by (simp add: at_def)
    show ?thesis
    proof (cases "at b p < CHR '' ''")
      case True
      then show ?thesis using lt
        by (subst QuotedLoop.simps) (simp add: Let_def throw_def)
    next
      case ctrl: False
      show ?thesis
      proof (cases "at b p = DQUOTE")
        case True
        from "1.prems"(4) sp True obtain ds where
          ds: "span b (Suc p) e = DQUOTE # ds" and nc: "no_closing_quote ds"
          by (auto simp: no_closing_quote_Cons)
        from ds have lt2: "Suc p < e" by (cases "Suc p < e") (auto simp: span_Nil)
        with ds have d: "at b (Suc p) = DQUOTE" and rest: "span b (Suc (Suc p)) e = ds"
          by (auto simp: span_Cons)
        from "1.IH"(1)[OF refl refl ctrl True] d "1.prems"(1,2) lt2 rest nc
        have "\<exists>q. QuotedLoop cap b (p + 1 + 1) (cat cap str (at b p))
                  = Inl (ParseException q ControlCharInString) \<and> q \<le> int e + 1"
          by simp
        then show ?thesis using ctrl True d
          by (subst QuotedLoop.simps) (simp add: Let_def)
      next
        case nq: False
        from "1.prems"(4) sp nq have nc1: "no_closing_quote (span b (Suc p) e)"
          by (simp add: no_closing_quote_Cons)
        have step1: "\<exists>q. QuotedLoop cap b (p + 1) str' = Inl (ParseException q ControlCharInString) \<and> q \<le> int e + 1"
          if "QuotedLoop cap b (p + 1) str' = QuotedLoop cap b (p + 1) str'"
             "\<And>x. (e < length b \<Longrightarrow> b ! e = NUL \<Longrightarrow> p + 1 \<le> e \<Longrightarrow> no_closing_quote (span b (p + 1) e) \<Longrightarrow>
               \<exists>q. QuotedLoop cap b (p + 1) str' = Inl (ParseException q ControlCharInString) \<and> q \<le> int e + 1)" for str'
          using that "1.prems"(1,2) lt nc1 by simp
        have skip: "\<exists>q. QuotedLoop cap b (p + 1 + 1) str' = Inl (ParseException q ControlCharInString) \<and> q \<le> int e + 1"
          if ne: "at b (Suc p) \<noteq> DQUOTE" "at b (Suc p) \<noteq> NUL"
            and ih: "e < length b \<Longrightarrow> b ! e = NUL \<Longrightarrow> p + 1 + 1 \<le> e \<Longrightarrow> no_closing_quote (span b (p + 1 + 1) e) \<Longrightarrow>
               \<exists>q. QuotedLoop cap b (p + 1 + 1) str' = Inl (ParseException q ControlCharInString) \<and> q \<le> int e + 1" for str'
        proof -
          from ne nul lt have lt2: "Suc p < e" by (cases "Suc p = e") auto
          with nc1 ne have "no_closing_quote (span b (Suc (Suc p)) e)"
            by (simp add: span_Cons no_closing_quote_Cons)
          with ih "1.prems"(1,2) lt2 show ?thesis by simp
        qed
        show ?thesis
        proof (cases "at b p = SQUOTE")
          case sq: True
          show ?thesis
          proof (cases "isalpha (at b (p + 1))")
            case True
            then have ne: "at b (Suc p) \<noteq> DQUOTE" "at b (Suc p) \<noteq> NUL"
              by (auto simp: isalpha_def lowercase_def uppercase_def)
            from skip[OF ne "1.IH"(2)[OF refl refl ctrl nq sq True]]
            show ?thesis using ctrl nq sq True
              by (subst QuotedLoop.simps) (simp add: Let_def)
          next
            case na: False
            show ?thesis
            proof (cases "at b (p + 1) = at b p")
              case True
              with sq have ne: "at b (Suc p) \<noteq> DQUOTE" "at b (Suc p) \<noteq> NUL" by auto
              from skip[OF ne "1.IH"(3)[OF refl refl ctrl nq sq na True]]
              show ?thesis using ctrl nq sq na True
                by (subst QuotedLoop.simps) (simp add: Let_def)
            next
              case False
              from "1.IH"(4)[OF refl refl ctrl nq sq na False] "1.prems"(1,2) lt nc1
              show ?thesis using ctrl nq sq na False
                by (subst QuotedLoop.simps) (simp add: Let_def)
            qed
          qed
        next
          case False
          from "1.IH"(5)[OF refl refl ctrl nq False] "1.prems"(1,2) lt nc1
          show ?thesis using ctrl nq False
            by (subst QuotedLoop.simps) (simp add: Let_def)
        qed
      qed
    qed
  qed
qed

text \<open>
  Claim C9. \<^verbatim>\<open>Seen\<close> has left \<^verbatim>\<open>readPointer\<close> on a double quote of the line, the line ends
  with the NUL that \<^verbatim>\<open>LineFinished\<close> wrote at \<^verbatim>\<open>gcodeLineEnd\<close>, and the text between that
  quote and the end of the line has no closing quote. Then \<^verbatim>\<open>GetQuotedString\<close> throws
  "control character in string", and \<^verbatim>\<open>readPointer\<close> at the throw is at most one past the
  NUL: the scan has not gone beyond the end of the line.
\<close>

theorem GetQuotedString_unterminated:
  assumes "Seen c s0 = (True, s)"
      and "gcodeLineEnd s < length (buffer s)" and "buffer s ! gcodeLineEnd s = NUL"
      and "readPointer s < int (gcodeLineEnd s)"
      and "cur s = DQUOTE"
      and "no_closing_quote (span (buffer s) (nat (readPointer s) + 1) (gcodeLineEnd s))"
  shows "\<exists>p. GetQuotedString E cap s = Inl (ParseException p ControlCharInString)
             \<and> p \<le> int (gcodeLineEnd s) + 1"
proof -
  from Seen_True[OF assms(1)] have pos: "0 < readPointer s" by simp
  with assms(4) have le: "nat (readPointer s + 1) \<le> gcodeLineEnd s" by simp
  have eq: "nat (readPointer s + 1) = nat (readPointer s) + 1" using pos by simp
  from QuotedLoop_unterminated[OF assms(2,3) le, of cap "[]"] assms(6) eq
  obtain q where "QuotedLoop cap (buffer s) (nat (readPointer s + 1)) [] = Inl (ParseException q ControlCharInString)"
    and "q \<le> int (gcodeLineEnd s) + 1" by auto
  with pos assms(5) show ?thesis
    by (simp add: GetQuotedString_def InternalGetQuotedString_def)
qed



lemma unterminated_line_eq:
  "unterminated_line =
     (StringParser 24)\<lparr>buffer := ''M117 P\"ab\"\"d'' @ replicate 12 NUL, bufferState := ready,
        gcodeLineEnd := 12, commandLength := 13, computedChecksum := 79,
        commandLetter := CHR ''M'', hasCommandNumber := True, commandNumber := 117,
        commandFraction := -1, parameterStart := 4, commandEnd := 12, lineNumber := 1\<rparr>"
  unfolding unterminated_line_def
  by (simp add: eval_simps)

theorem GetQuotedString_unterminated_witness:
  "\<exists>p\<le>13. GetQuotedString example_env 20 (snd (Seen (CHR ''P'') unterminated_line))
     = Inl (ParseException p ControlCharInString)"
proof -
  let ?s = "snd (Seen (CHR ''P'') unterminated_line)"
  have s: "Seen (CHR ''P'') unterminated_line = (True, unterminated_line\<lparr>readPointer := 6\<rparr>)"
    by (simp add: unterminated_line_eq Seen_def SeenLoop.simps getter_simps)
  then have seen: "Seen (CHR ''P'') unterminated_line = (True, ?s)" by simp
  have s': "?s = unterminated_line\<lparr>readPointer := 6\<rparr>" using s by simp
  have a: "gcodeLineEnd ?s < length (buffer ?s)"
    and b: "buffer ?s ! gcodeLineEnd ?s = NUL"
    and c: "readPointer ?s < int (gcodeLineEnd ?s)"
    and d: "cur ?s = DQUOTE"
    and e: "no_closing_quote (span (buffer ?s) (nat (readPointer ?s) + 1) (gcodeLineEnd ?s))"
    unfolding s'
    by (simp_all add: unterminated_line_eq getter_simps span_def upt_conv_Cons)
  have g: "gcodeLineEnd ?s = 12" unfolding s' by (simp add: unterminated_line_eq)
  from GetQuotedString_unterminated[OF seen a b c d e, of example_env 20] g
  show ?thesis by auto
qed



section \<open>Seen\<close>

text \<open>The loop of \<^verbatim>\<open>Seen\<close> finds the first occurrence, for any position it has reached.\<close>

lemma scan_before_Suc:
  "parameterStart s \<le> p \<Longrightarrow> scan_before s (Suc p) = scan_step (scan_before s p) (at (buffer s) p)"
  by (simp add: scan_before_def)

lemma toupper_DQUOTE: "c \<in> set uppercase \<Longrightarrow> toupper DQUOTE \<noteq> c"
  by (auto simp: toupper_def lowercase_def uppercase_def)

lemma SeenLoop_find:
  assumes "c \<in> set uppercase"
  shows "parameterStart s \<le> p \<Longrightarrow> scan_before s p = (q, n) \<Longrightarrow>
    SeenLoop c s p q n =
      (case find (occurs s c) [p..<commandEnd s] of
         None \<Rightarrow> (False, s\<lparr>readPointer := -1\<rparr>)
       | Some i \<Rightarrow> (True, s\<lparr>readPointer := int i + 1\<rparr>))"
proof (induction "commandEnd s - p" arbitrary: p q n)
  case 0
  then show ?case by (subst SeenLoop.simps) simp
next
  case (Suc k)
  then have lt: "p < commandEnd s" and k: "k = commandEnd s - Suc p" by simp_all
  let ?b = "at (buffer s) p"
  have upt: "[p..<commandEnd s] = p # [Suc p..<commandEnd s]" using lt by (simp add: upt_conv_Cons)
  have next_state: "scan_before s (Suc p) = scan_step (q, n) ?b"
    using Suc.prems by (simp add: scan_before_Suc)
  have IH: "scan_step (q, n) ?b = (q', n') \<Longrightarrow>
      SeenLoop c s (Suc p) q' n' =
        (case find (occurs s c) [Suc p..<commandEnd s] of
           None \<Rightarrow> (False, s\<lparr>readPointer := -1\<rparr>)
         | Some i \<Rightarrow> (True, s\<lparr>readPointer := int i + 1\<rparr>))" for q' n'
    using Suc.hyps(1)[OF k, of q' n'] Suc.prems(1) next_state by simp
  have occ: "occurs s c p \<longleftrightarrow>
      \<not> q \<and> n = 0 \<and> toupper ?b = c
        \<and> (c \<noteq> CHR ''E'' \<or> p = parameterStart s \<or> \<not> isdigit (at (buffer s) (p - 1)))"
    using Suc.prems(2) by (auto simp: occurs_def letter_at_def)
  show ?case
  proof (cases "?b = DQUOTE")
    case True
    with occ toupper_DQUOTE[OF assms] have "\<not> occurs s c p" by auto
    moreover from True have "scan_step (q, n) ?b = (\<not> q, n)" by (simp add: scan_step_def)
    ultimately show ?thesis using lt True upt IH[of "\<not> q" n]
      by (subst SeenLoop.simps) (simp add: Let_def)
  next
    case nq: False
    show ?thesis
    proof (cases q)
      case True
      with occ have "\<not> occurs s c p" by simp
      moreover from True nq have "scan_step (q, n) ?b = (q, n)" by (simp add: scan_step_def)
      ultimately show ?thesis using lt nq True upt IH[of q n]
        by (subst SeenLoop.simps) (simp add: Let_def)
    next
      case False
      show ?thesis
      proof (cases "occurs s c p")
        case True
        then show ?thesis using lt nq False upt occ
          by (subst SeenLoop.simps) (simp add: Let_def)
      next
        case no: False
        from no occ False have nomatch:
          "\<not> (n = 0 \<and> toupper ?b = c
               \<and> (c \<noteq> CHR ''E'' \<or> p = parameterStart s \<or> \<not> isdigit (at (buffer s) (p - 1))))"
          by simp
        consider (lbrace) "?b = CHR ''{''" | (rbrace) "?b = CHR ''}''" "n \<noteq> 0"
          | (other) "?b \<noteq> CHR ''{''" "\<not> (?b = CHR ''}'' \<and> n \<noteq> 0)" by blast
        then show ?thesis
        proof cases
          case lbrace
          with nq False have "scan_step (q, n) ?b = (False, n + 1)" by (simp add: scan_step_def)
          from IH[OF this] show ?thesis using lt nq False no upt nomatch lbrace
            by (subst SeenLoop.simps) (auto simp: Let_def)
        next
          case rbrace
          with nq False have "scan_step (q, n) ?b = (False, n - 1)" by (simp add: scan_step_def)
          from IH[OF this] show ?thesis using lt nq False no upt nomatch rbrace
            by (subst SeenLoop.simps) (auto simp: Let_def)
        next
          case other
          with nq False have "scan_step (q, n) ?b = (False, n)" by (auto simp: scan_step_def)
          from IH[OF this] show ?thesis using lt nq False no upt nomatch other
            by (subst SeenLoop.simps) (auto simp: Let_def)
        qed
      qed
    qed
  qed
qed

text \<open>
  Claim C4, amended. For an upper-case letter \<open>c\<close>, \<^verbatim>\<open>Seen\<close> returns true exactly when the
  span from \<^verbatim>\<open>parameterStart\<close> to \<^verbatim>\<open>commandEnd\<close> holds an occurrence of \<open>c\<close> in either case,
  outside double quotes and at brace depth 0, where an \<open>E\<close> behind a digit does not count
  unless it stands at \<^verbatim>\<open>parameterStart\<close> itself. It then leaves \<^verbatim>\<open>readPointer\<close> just behind
  the first occurrence; on a miss it sets \<^verbatim>\<open>readPointer\<close> to -1 and returns false. Nothing
  else of the parser changes.
\<close>

theorem Seen_first_occurrence:
  assumes "c \<in> set uppercase"
  shows "Seen c s =
      (case find (occurs s c) [parameterStart s..<commandEnd s] of
         None \<Rightarrow> (False, s\<lparr>readPointer := -1\<rparr>)
       | Some i \<Rightarrow> (True, s\<lparr>readPointer := int i + 1\<rparr>))"
  unfolding Seen_def
  by (rule SeenLoop_find[OF assms]) (simp_all add: scan_before_def)


lemma compact_line_eq:
  "compact_line =
     (StringParser 8)\<lparr>buffer := ''G1E5'' @ replicate 4 NUL, bufferState := ready,
        gcodeLineEnd := 4, commandLength := 5, computedChecksum := 6,
        commandLetter := CHR ''G'', hasCommandNumber := True, commandNumber := 1,
        commandFraction := -1, parameterStart := 2, commandEnd := 4, lineNumber := 1\<rparr>"
  unfolding compact_line_def
  by (simp add: eval_simps)

lemmas spec_simps =
  occurs_def occurs_as_claimed_def letter_at_def scan_before_def scan_step_def upt_conv_Cons

theorem Seen_first_occurrence_witness:
  "Seen (CHR ''E'') compact_line = (True, compact_line\<lparr>readPointer := 3\<rparr>)"
proof -
  have "CHR ''E'' \<in> set uppercase" by (simp add: uppercase_def)
  from Seen_first_occurrence[OF this, of compact_line] show ?thesis
    by (simp add: compact_line_eq spec_simps getter_simps)
qed

text \<open>
  Claim C4 as it is worded fails on the line \<open>G1E5\<close>: its only \<open>E\<close> follows the digit of the
  command number, so no occurrence counts, yet \<^verbatim>\<open>Seen('E')\<close> returns true.
\<close>

theorem Seen_claimed_counterexample:
  "fst (Seen (CHR ''E'') compact_line)
     \<and> \<not> list_ex (occurs_as_claimed compact_line (CHR ''E''))
            [parameterStart compact_line..<commandEnd compact_line]"
  by (simp add: compact_line_eq Seen_def SeenLoop.simps spec_simps getter_simps)



section \<open>The getters and readPointer\<close>

lemma finish_Inr: "finish r = Inr (v, s') \<Longrightarrow> readPointer s' = -1"
  by (auto simp: finish_def split: sum.splits)

lemma PadArray_Inr: "map_sum id (PadArray doPad n) r = Inr (a, len, s') \<Longrightarrow> readPointer s' = -1"
  by (cases r) (auto simp: PadArray_def split: if_splits)

lemma QuotedLoop_advances: "QuotedLoop cap b p str = Inr (r, p') \<Longrightarrow> p < p'"
proof (induction cap b p str rule: QuotedLoop.induct)
  case (1 cap b p str)
  show ?case
    using "1.prems"[unfolded QuotedLoop.simps[of cap b p str]] "1.IH"[OF refl refl]
    by (auto simp: Let_def throw_def split: if_splits)
qed

lemma ReducedLoop_advances: "ReducedLoop cap b p str = Inr (r, p') \<Longrightarrow> p < p'"
proof (induction cap b p str rule: ReducedLoop.induct)
  case (1 cap b p str)
  show ?case
    using "1.prems"[unfolded ReducedLoop.simps[of cap b p str]] "1.IH"[OF refl refl]
    by (auto simp: Let_def throw_def split: if_splits)
qed

lemma VariableNameEnd_ge: "p \<le> VariableNameEnd b p n"
proof (induction b p n rule: VariableNameEnd.induct)
  case (1 b p numBrackets)
  show ?case
    using "1.IH"[OF refl] by (subst VariableNameEnd.simps) (auto simp: Let_def)
qed

lemma EvaluateExpression_advances:
  assumes "EvaluateExpression E s = Inr (v, s')" and "0 \<le> readPointer s"
  shows "readPointer s < readPointer s'"
proof -
  let ?start = "nat (readPointer s + 1)"
  from assms(1) have "readPointer s' = int (VariableNameEnd (buffer s) ?start 0) + 1"
    by (auto simp: EvaluateExpression_def Let_def advance_def throw_def split: if_splits)
  with VariableNameEnd_ge[of ?start "buffer s" 0] assms(2) show ?thesis by simp
qed

lemma GetQuotedString_advances:
  assumes "GetQuotedString E cap s = Inr (str, s')"
  shows "readPointer s < readPointer s'"
proof -
  from assms have pos: "0 < readPointer s"
    by (auto simp: GetQuotedString_def throw_def split: if_splits)
  show ?thesis
  proof (cases "cur s = DQUOTE")
    case True
    with assms pos obtain p where "QuotedLoop cap (buffer s) (nat (readPointer s + 1)) [] = Inr (str, p)"
      and "readPointer s' = int p"
      by (auto simp: GetQuotedString_def InternalGetQuotedString_def split: sum.splits)
    with QuotedLoop_advances[of cap "buffer s" "nat (readPointer s + 1)" "[]" str p] pos
    show ?thesis by simp
  next
    case False
    with assms pos obtain v where "EvaluateExpression E s = Inr (v, s')"
      by (auto simp: GetQuotedString_def GetStringExpression_def throw_def Let_def
               split: if_splits sum.splits ExpressionValue.splits)
    from EvaluateExpression_advances[OF this] pos show ?thesis by simp
  qed
qed

lemma GetReducedString_advances:
  assumes "GetReducedString cap s = Inr (str, s')"
  shows "readPointer s < readPointer s'"
proof -
  from assms have pos: "0 < readPointer s"
    by (auto simp: GetReducedString_def throw_def split: if_splits)
  with assms obtain p where "ReducedLoop cap (buffer s) (nat (readPointer s + 1)) [] = Inr (str, p)"
    and "readPointer s' = int p"
    by (auto simp: GetReducedString_def throw_def split: sum.splits if_splits)
  with ReducedLoop_advances[of cap "buffer s" "nat (readPointer s + 1)" "[]" str p] pos
  show ?thesis by simp
qed

lemma Internal_without_Seen:
  assumes "readPointer s \<le> 0"
  shows "GetFValue E s = Inl (ParseException (readPointer s) Internal)"
    and "GetIValue E s = Inl (ParseException (readPointer s) Internal)"
    and "GetUIValue E s = Inl (ParseException (readPointer s) Internal)"
    and "GetDriverId can E s = Inl (ParseException (readPointer s) Internal)"
    and "GetFloatArray E fa n pad s = Inl (ParseException (readPointer s) Internal)"
    and "GetIntArray E ia n pad s = Inl (ParseException (readPointer s) Internal)"
    and "GetUnsignedArray E ua n pad s = Inl (ParseException (readPointer s) Internal)"
    and "GetDriverIdArray can E da n s = Inl (ParseException (readPointer s) Internal)"
    and "GetIPAddress E s = Inl (ParseException (readPointer s) Internal)"
    and "GetMacAddress E s = Inl (ParseException (readPointer s) Internal)"
    and "GetQuotedString E cap s = Inl (ParseException (readPointer s) Internal)"
    and "GetPossiblyQuotedString E cap s = Inl (ParseException (readPointer s) Internal)"
    and "GetReducedString cap s = Inl (ParseException (readPointer s) Internal)"
  using assms
  by (simp_all add: GetFValue_def GetIValue_def GetUIValue_def GetDriverId_def GetFloatArray_def
        GetIntArray_def GetUnsignedArray_def GetDriverIdArray_def GetIPAddress_def
        GetMacAddress_def GetQuotedString_def GetPossiblyQuotedString_def GetReducedString_def
        throw_def)

lemma minus_one_after_success:
  shows "GetFValue E s = Inr (f, s1) \<Longrightarrow> readPointer s1 = -1"
    and "GetIValue E s = Inr (i, s2) \<Longrightarrow> readPointer s2 = -1"
    and "GetUIValue E s = Inr (u, s3) \<Longrightarrow> readPointer s3 = -1"
    and "GetDriverId can E s = Inr (d, s4) \<Longrightarrow> readPointer s4 = -1"
    and "GetFloatArray E fa n pad s = Inr (fa', n5, s5) \<Longrightarrow> readPointer s5 = -1"
    and "GetIntArray E ia n pad s = Inr (ia', n6, s6) \<Longrightarrow> readPointer s6 = -1"
    and "GetUnsignedArray E ua n pad s = Inr (ua', n7, s7) \<Longrightarrow> readPointer s7 = -1"
    and "GetDriverIdArray can E da n s = Inr (da', n8, s8) \<Longrightarrow> readPointer s8 = -1"
    and "GetIPAddress E s = Inr (ip, s9) \<Longrightarrow> readPointer s9 = -1"
    and "GetMacAddress E s = Inr (mac, s10) \<Longrightarrow> readPointer s10 = -1"
proof -
  show "GetFValue E s = Inr (f, s1) \<Longrightarrow> readPointer s1 = -1"
    by (auto simp: GetFValue_def throw_def split: if_splits dest: finish_Inr)
  show "GetIValue E s = Inr (i, s2) \<Longrightarrow> readPointer s2 = -1"
    by (auto simp: GetIValue_def throw_def split: if_splits dest: finish_Inr)
  show "GetUIValue E s = Inr (u, s3) \<Longrightarrow> readPointer s3 = -1"
    by (auto simp: GetUIValue_def throw_def split: if_splits dest: finish_Inr)
  show "GetDriverId can E s = Inr (d, s4) \<Longrightarrow> readPointer s4 = -1"
    by (auto simp: GetDriverId_def throw_def split: if_splits dest: finish_Inr)
  show "GetFloatArray E fa n pad s = Inr (fa', n5, s5) \<Longrightarrow> readPointer s5 = -1"
    by (auto simp: GetFloatArray_def throw_def split: if_splits dest: PadArray_Inr)
  show "GetIntArray E ia n pad s = Inr (ia', n6, s6) \<Longrightarrow> readPointer s6 = -1"
    by (auto simp: GetIntArray_def throw_def split: if_splits dest: PadArray_Inr)
  show "GetUnsignedArray E ua n pad s = Inr (ua', n7, s7) \<Longrightarrow> readPointer s7 = -1"
    by (auto simp: GetUnsignedArray_def throw_def split: if_splits dest: PadArray_Inr)
  show "GetDriverIdArray can E da n s = Inr (da', n8, s8) \<Longrightarrow> readPointer s8 = -1"
    by (cases "ReadArray (ReadDriverIdValue can E) n da 0 s")
       (auto simp: GetDriverIdArray_def throw_def split: if_splits)
  show "GetIPAddress E s = Inr (ip, s9) \<Longrightarrow> readPointer s9 = -1"
    by (auto simp: GetIPAddress_def throw_def split: if_splits sum.splits)
  show "GetMacAddress E s = Inr (mac, s10) \<Longrightarrow> readPointer s10 = -1"
    by (auto simp: GetMacAddress_def throw_def split: if_splits sum.splits)
qed

text \<open>
  Claim C5, amended. Every getter that reads the parameter \<^verbatim>\<open>Seen\<close> has found (float, int,
  uint, driver id, the four arrays, IP, MAC, \<^verbatim>\<open>GetQuotedString\<close>, \<^verbatim>\<open>GetPossiblyQuotedString\<close>,
  \<^verbatim>\<open>GetReducedString\<close>) throws the internal error when \<^verbatim>\<open>readPointer\<close> is 0 or negative.
  The numeric, driver-id, array, IP and MAC getters leave \<^verbatim>\<open>readPointer\<close> at -1 when they
  return. \<^verbatim>\<open>GetQuotedString\<close> and \<^verbatim>\<open>GetReducedString\<close> do not reset it: when they return,
  \<^verbatim>\<open>readPointer\<close> stands behind the text they consumed, beyond where it stood on entry.
\<close>

theorem getters_readPointer:
  "(readPointer s \<le> 0 \<longrightarrow>
      GetFValue E s = Inl (ParseException (readPointer s) Internal)
    \<and> GetIValue E s = Inl (ParseException (readPointer s) Internal)
    \<and> GetUIValue E s = Inl (ParseException (readPointer s) Internal)
    \<and> GetDriverId can E s = Inl (ParseException (readPointer s) Internal)
    \<and> GetFloatArray E fa n pad s = Inl (ParseException (readPointer s) Internal)
    \<and> GetIntArray E ia n pad s = Inl (ParseException (readPointer s) Internal)
    \<and> GetUnsignedArray E ua n pad s = Inl (ParseException (readPointer s) Internal)
    \<and> GetDriverIdArray can E da n s = Inl (ParseException (readPointer s) Internal)
    \<and> GetIPAddress E s = Inl (ParseException (readPointer s) Internal)
    \<and> GetMacAddress E s = Inl (ParseException (readPointer s) Internal)
    \<and> GetQuotedString E cap s = Inl (ParseException (readPointer s) Internal)
    \<and> GetPossiblyQuotedString E cap s = Inl (ParseException (readPointer s) Internal)
    \<and> GetReducedString cap s = Inl (ParseException (readPointer s) Internal))
   \<and> (GetFValue E s = Inr (f, s1) \<longrightarrow> readPointer s1 = -1)
   \<and> (GetIValue E s = Inr (i, s2) \<longrightarrow> readPointer s2 = -1)
   \<and> (GetUIValue E s = Inr (u, s3) \<longrightarrow> readPointer s3 = -1)
   \<and> (GetDriverId can E s = Inr (d, s4) \<longrightarrow> readPointer s4 = -1)
   \<and> (GetFloatArray E fa n pad s = Inr (fa', n5, s5) \<longrightarrow> readPointer s5 = -1)
   \<and> (GetIntArray E ia n pad s = Inr (ia', n6, s6) \<longrightarrow> readPointer s6 = -1)
   \<and> (GetUnsignedArray E ua n pad s = Inr (ua', n7, s7) \<longrightarrow> readPointer s7 = -1)
   \<and> (GetDriverIdArray can E da n s = Inr (da', n8, s8) \<longrightarrow> readPointer s8 = -1)
   \<and> (GetIPAddress E s = Inr (ip, s9) \<longrightarrow> readPointer s9 = -1)
   \<and> (GetMacAddress E s = Inr (mac, s10) \<longrightarrow> readPointer s10 = -1)
   \<and> (GetQuotedString E cap s = Inr (str, s11) \<longrightarrow> readPointer s < readPointer s11)
   \<and> (GetReducedString cap s = Inr (str', s12) \<longrightarrow> readPointer s < readPointer s12)"
  by (auto simp: Internal_without_Seen
           dest: minus_one_after_success GetQuotedString_advances GetReducedString_advances)


lemma quoted_line_eq:
  "quoted_line =
     (StringParser 16)\<lparr>buffer := ''M117 P\"abc\"'' @ replicate 5 NUL, bufferState := ready,
        gcodeLineEnd := 11, commandLength := 12, computedChecksum := 106,
        commandLetter := CHR ''M'', hasCommandNumber := True, commandNumber := 117,
        commandFraction := -1, parameterStart := 4, commandEnd := 11, lineNumber := 1\<rparr>"
  unfolding quoted_line_def
  by (simp add: eval_simps)

lemma array_line_eq:
  "array_line =
     (StringParser 16)\<lparr>buffer := ''G1 X10:20:30'' @ replicate 4 NUL, bufferState := ready,
        gcodeLineEnd := 12, commandLength := 13, computedChecksum := 14,
        commandLetter := CHR ''G'', hasCommandNumber := True, commandNumber := 1,
        commandFraction := -1, parameterStart := 2, commandEnd := 12, lineNumber := 1\<rparr>"
  unfolding array_line_def
  by (simp add: eval_simps)

lemma Seen_P_quoted_line:
  "Seen (CHR ''P'') quoted_line = (True, quoted_line\<lparr>readPointer := 6\<rparr>)"
  by (simp add: quoted_line_eq Seen_def SeenLoop.simps getter_simps)

lemma Seen_X_array_line:
  "Seen (CHR ''X'') array_line = (True, array_line\<lparr>readPointer := 4\<rparr>)"
  by (simp add: array_line_eq Seen_def SeenLoop.simps getter_simps)


lemma GetQuotedString_quoted_line:
  "GetQuotedString example_env 20 (quoted_line\<lparr>readPointer := 6\<rparr>)
     = Inr (''abc'', quoted_line\<lparr>readPointer := 12\<rparr>)"
  by (simp split del: if_split add: quoted_line_eq GetQuotedString_def InternalGetQuotedString_def QuotedLoop.simps
        getter_simps)

lemma GetFValue_array_line:
  "GetFValue example_env (array_line\<lparr>readPointer := 4\<rparr>)
     = Inr ((), array_line\<lparr>readPointer := -1\<rparr>)"
  by (simp split del: if_split add: array_line_eq GetFValue_def ReadFloatValue_def finish_def getter_simps)

theorem getters_readPointer_witness:
  "GetIValue example_env quoted_line = Inl (ParseException (- 1) Internal)
   \<and> readPointer (snd (projr (GetFValue example_env (snd (Seen (CHR ''X'') array_line))))) = - 1
   \<and> 6 < readPointer (snd (projr (GetQuotedString example_env 20 (snd (Seen (CHR ''P'') quoted_line)))))"
proof -
  have rp: "readPointer quoted_line = - 1"
    by (simp add: quoted_line_eq StringParser_def Init_def)
  from getters_readPointer[of quoted_line example_env] rp
  have 1: "GetIValue example_env quoted_line = Inl (ParseException (- 1) Internal)" by simp
  from getters_readPointer[of "array_line\<lparr>readPointer := 4\<rparr>" example_env _ _ _ _ _ _ _ _ "()"
         "array_line\<lparr>readPointer := -1\<rparr>"] GetFValue_array_line
  have 2: "readPointer (snd (projr (GetFValue example_env (array_line\<lparr>readPointer := 4\<rparr>)))) = - 1"
    by simp
  from getters_readPointer[of "quoted_line\<lparr>readPointer := 6\<rparr>" example_env]
       GetQuotedString_quoted_line
  have 3: "6 < readPointer (snd (projr (GetQuotedString example_env 20 (quoted_line\<lparr>readPointer := 6\<rparr>))))"
    by simp
  from 1 2 3 show ?thesis by (simp add: Seen_P_quoted_line Seen_X_array_line)
qed

text \<open>
  Claim C5 as it is worded fails for the string getters. On the line \<open>M117 P"abc"\<close>,
  \<^verbatim>\<open>GetQuotedString\<close> after \<^verbatim>\<open>Seen('P')\<close> returns \<open>abc\<close> and leaves \<^verbatim>\<open>readPointer\<close> at 12; and
  \<^verbatim>\<open>GetUnprecedentedString\<close>, called with \<^verbatim>\<open>readPointer\<close> at -1, returns the rest of the line
  and throws nothing.
\<close>

theorem getters_readPointer_counterexample:
  "GetQuotedString example_env 20 (snd (Seen (CHR ''P'') quoted_line))
     = Inr (''abc'', quoted_line\<lparr>readPointer := 12\<rparr>)
   \<and> readPointer quoted_line = - 1
   \<and> GetUnprecedentedString example_env 20 True quoted_line
       = Inr (''P\"abc\"'', quoted_line\<lparr>readPointer := 12\<rparr>)"
proof -
  have "GetUnprecedentedString example_env 20 True quoted_line
       = Inr (''P\"abc\"'', quoted_line\<lparr>readPointer := 12\<rparr>)"
    by (simp split del: if_split add: quoted_line_eq GetUnprecedentedString_def InternalGetPossiblyQuotedString_def
          SkipSpaces.simps RestOfLine.simps StripTrailingSpaces_def getter_simps)
  then show ?thesis
    by (simp add: Seen_P_quoted_line GetQuotedString_quoted_line)
       (simp add: quoted_line_eq StringParser_def Init_def)
qed



section \<open>Structured-control keywords\<close>

text \<open>
  Claim C1 holds for a keyword at the start of a line and fails for an indented one.
  \<^verbatim>\<open>Put\<close> does not store the indentation, so the keyword is at the start of the buffer, where
  \<^verbatim>\<open>ProcessConditionalGCode\<close> counts its letters; but it compares the keyword with the text at
  \<^verbatim>\<open>gb.buffer + commandIndent\<close>. The line \<open>if x\<close> indented by two spaces, read from a file, is
  therefore not consumed: \<^verbatim>\<open>Put\<close> returns true and the line is decoded as a command with the
  invalid letter \<open>I\<close>. The same line without indentation reaches \<^verbatim>\<open>ProcessIfCommand\<close>, whose
  condition evaluation throws.
\<close>

theorem indented_keyword_is_decoded:
  "(\<exists>s. PutChars example_env ''  if x'' (Init file_parser) = Inr (True, s)
        \<and> commandIndent s = 2 \<and> cstring (buffer s) 0 = ''if x'' \<and> bufferState s = ready
        \<and> commandLetter s = CHR ''I'' \<and> \<not> hasCommandNumber s)
   \<and> PutChars example_env ''if x'' (Init file_parser)
        = Inl (ParseException (- 1) (ConditionEvaluationFailed ''if''))"
  by (simp split del: if_split add: eval_simps file_simps)


section \<open>Lines with a bad checksum\<close>

lemma resend_line_eq:
  "resend_line = Inr (True,
     (StringParser 16)\<lparr>buffer := ''M998 P5'' @ replicate 9 NUL, bufferState := ready,
        gcodeLineEnd := 5, commandLength := 12, hadLineNumber := True, hadChecksum := True,
        computedChecksum := 100, declaredChecksum := 99, receivedLineNumber := 5,
        commandLetter := CHR ''M'', hasCommandNumber := True, commandNumber := 998,
        commandFraction := -1, parameterStart := 4, commandEnd := 5, lineNumber := 5\<rparr>)"
  unfolding resend_line_def
  by (simp split del: if_split add: eval_simps drop_Cons_if take_Cons_if)

lemma long_resend_line_eq:
  "long_resend_line = Inr (True,
     (StringParser 24)\<lparr>buffer := ''M998 P5'' @ [NUL] @ ''Y200 G28'' @ replicate 8 NUL,
        bufferState := ready,
        gcodeLineEnd := 16, commandLength := 23, hadLineNumber := True, hadChecksum := True,
        computedChecksum := 66, declaredChecksum := 99, receivedLineNumber := 5,
        commandLetter := CHR ''M'', hasCommandNumber := True, commandNumber := 998,
        commandFraction := -1, parameterStart := 4, commandEnd := 13, lineNumber := 5\<rparr>)"
  unfolding long_resend_line_def
  by (simp split del: if_split add: eval_simps drop_Cons_if take_Cons_if)

text \<open>
  Claim C2 fails where \<^verbatim>\<open>LineFinished\<close> writes \<open>M998 P<n>\<close> into the buffer and leaves
  \<^verbatim>\<open>gcodeLineEnd\<close> at the length of the rejected line. For \<open>N5 G1 X1*99\<close> (5 bytes retained)
  the command is decoded as \<open>M998\<close> with \<^verbatim>\<open>commandEnd\<close> 5, so that \<^verbatim>\<open>Seen('P')\<close> is false: the
  line number of the resend request is out of reach. For \<open>N5 G1 X100 Y200 G28*99\<close> (16
  bytes retained) the command ends at 13, and \<^verbatim>\<open>SetFinished\<close> then decodes the \<open>G28\<close> that the
  rejected line left behind the new text.
\<close>

theorem resend_request_is_cut_off:
  "(\<exists>s. resend_line = Inr (True, s) \<and> cstring (buffer s) 0 = ''M998 P5''
        \<and> commandLetter s = CHR ''M'' \<and> commandNumber s = 998
        \<and> gcodeLineEnd s = 5 \<and> commandEnd s = 5 \<and> \<not> fst (Seen (CHR ''P'') s))
   \<and> (\<exists>s. long_resend_line = Inr (True, s) \<and> cstring (buffer s) 0 = ''M998 P5''
        \<and> commandEnd s = 13 \<and> gcodeLineEnd s = 16
        \<and> (let s' = SetFinished example_env s
           in bufferState s' = ready \<and> commandLetter s' = CHR ''G'' \<and> commandNumber s' = 28))"
  by (simp split del: if_split add: resend_line_eq long_resend_line_eq cstring_def Seen_def
        SeenLoop.simps SetFinished_def DecodeCommand_def FindCommandEnd.simps
        ReadCommandNumber.simps digitval_def strchr_found_def getter_simps)


section \<open>GetPossiblyQuotedString\<close>

text \<open>\<^verbatim>\<open>GetPossiblyQuotedString\<close> has no \<^verbatim>\<open>return\<close> before its \<^verbatim>\<open>THROW_INTERNAL_ERROR\<close>.\<close>

lemma GetPossiblyQuotedString_never_returns: "GetPossiblyQuotedString E cap s \<noteq> Inr r"
  by (auto simp: GetPossiblyQuotedString_def throw_def split: sum.splits)

lemma tail_line_eq:
  "tail_line =
     (StringParser 16)\<lparr>buffer := ''M117 P\"ab\" cd'' @ replicate 3 NUL, bufferState := ready,
        gcodeLineEnd := 13, commandLength := 14, computedChecksum := 46,
        commandLetter := CHR ''M'', hasCommandNumber := True, commandNumber := 117,
        commandFraction := -1, parameterStart := 4, commandEnd := 13, lineNumber := 1\<rparr>"
  unfolding tail_line_def
  by (simp split del: if_split add: eval_simps)

lemma Seen_P_tail_line:
  "Seen (CHR ''P'') tail_line = (True, tail_line\<lparr>readPointer := 6\<rparr>)"
  by (simp split del: if_split add: tail_line_eq Seen_def SeenLoop.simps getter_simps)

text \<open>
  Claim C6 fails on every call. After \<^verbatim>\<open>Seen('P')\<close> on \<open>M117 P"abc"\<close>,
  \<^verbatim>\<open>GetPossiblyQuotedString\<close> throws the internal error. Its worker
  \<^verbatim>\<open>InternalGetPossiblyQuotedString\<close> does not stop at the closing quote either: on
  \<open>M117 P"ab" cd\<close> it returns \<open>abcd\<close>.
\<close>

theorem GetPossiblyQuotedString_throws_and_appends:
  "GetPossiblyQuotedString example_env 20 (snd (Seen (CHR ''P'') quoted_line))
     = Inl (ParseException 13 Internal)
   \<and> InternalGetPossiblyQuotedString example_env 20 False (snd (Seen (CHR ''P'') tail_line))
     = Inr (''abcd'', tail_line\<lparr>readPointer := 14\<rparr>)"
  by (simp split del: if_split add: Seen_P_quoted_line Seen_P_tail_line)
     (simp split del: if_split add: quoted_line_eq tail_line_eq GetPossiblyQuotedString_def
        InternalGetPossiblyQuotedString_def InternalGetQuotedString_def QuotedLoop.simps
        RestOfLine.simps StripTrailingSpaces_def getter_simps)


section \<open>The Fanuc fallback\<close>

lemma negative_G_line_eq:
  "negative_G_line =
     (StringParser 8)\<lparr>buffer := ''G-1 X5'' @ replicate 2 NUL, bufferState := ready,
        gcodeLineEnd := 6, commandLength := 7, computedChecksum := 22,
        commandLetter := CHR ''G'', hasCommandNumber := True, commandNumber := -1,
        commandFraction := -1, parameterStart := 3, commandEnd := 6, lineNumber := 1\<rparr>"
  unfolding negative_G_line_def
  by (simp split del: if_split add: eval_simps)

text \<open>
  Claim C7 fails for a previous command with a negative number: the test is
  \<^verbatim>\<open>commandNumber <= 3\<close>. After \<open>G-1 X5\<close>, on a CNC machine with the axis letters \<open>XYZ\<close>, the
  line \<open>X20\<close> is decoded by the Fanuc fallback as \<open>G-1\<close> again.
\<close>

theorem fanuc_fallback_after_negative_G:
  "\<exists>s. PutString example_env ''X20'' (SetFinished example_env negative_G_line) = Inr s
       \<and> bufferState s = ready \<and> commandLetter s = CHR ''G'' \<and> hasCommandNumber s
       \<and> commandNumber s = - 1 \<and> parameterStart s = 0 \<and> commandEnd s = 3"
  by (simp split del: if_split add: negative_G_line_eq SetFinished_def eval_simps)


section \<open>Float arrays\<close>

text \<open>
  Claim C8 fails for \<^verbatim>\<open>GetFloatArray\<close>. \<^verbatim>\<open>ReadFloatValue\<close> moves \<^verbatim>\<open>readPointer\<close> one byte
  forward and hands \<^verbatim>\<open>SafeStrtof\<close> a null end pointer, so \<^verbatim>\<open>readPointer\<close> does not move over
  the number. On \<open>G1 X10:20:30\<close> after \<^verbatim>\<open>Seen('X')\<close> the loop stops after one element: with a
  capacity of 2 no error is thrown and \<^verbatim>\<open>returnedLength\<close> is 1; with a capacity of 3 and
  \<open>doPad\<close> the one element is broadcast. \<^verbatim>\<open>GetIntArray\<close> on the same input throws "array too
  long" for the capacity 2 and reads three elements for the capacity 3.
\<close>

theorem GetFloatArray_misses_ArrayTooLong:
  "GetFloatArray example_env [(), ()] 2 False (snd (Seen (CHR ''X'') array_line))
     = Inr ([(), ()], 1, array_line\<lparr>readPointer := - 1\<rparr>)
   \<and> GetFloatArray example_env [(), (), ()] 3 True (snd (Seen (CHR ''X'') array_line))
     = Inr ([(), (), ()], 3, array_line\<lparr>readPointer := - 1\<rparr>)
   \<and> GetIntArray example_env [0, 0] 2 False (snd (Seen (CHR ''X'') array_line))
     = Inl (ParseException 10 (ArrayTooLong 2))
   \<and> GetIntArray example_env [0, 0, 0] 3 True (snd (Seen (CHR ''X'') array_line))
     = Inr ([10, 20, 30], 3, array_line\<lparr>readPointer := - 1\<rparr>)"
  by (simp split del: if_split add: Seen_X_array_line)
     (simp split del: if_split add: array_line_eq GetFloatArray_def GetIntArray_def
        number_simps getter_simps)


section \<open>Numbers and expressions\<close>

lemma brace_line_eq:
  "brace_line =
     (StringParser 16)\<lparr>buffer := ''G1 X1{ab}'' @ replicate 7 NUL, bufferState := ready,
        gcodeLineEnd := 9, commandLength := 10, computedChecksum := 58,
        commandLetter := CHR ''G'', hasCommandNumber := True, commandNumber := 1,
        commandFraction := -1, parameterStart := 2, commandEnd := 9, lineNumber := 1\<rparr>"
  unfolding brace_line_def
  by (simp split del: if_split add: eval_simps)

lemma Seen_X_brace_line:
  "Seen (CHR ''X'') brace_line = (True, brace_line\<lparr>readPointer := 4\<rparr>)"
  by (simp split del: if_split add: brace_line_eq Seen_def SeenLoop.simps getter_simps)

text \<open>
  Claim C10 fails for \<^verbatim>\<open>GetFValue\<close>. On \<open>G1 X1{ab}\<close> the byte behind the letter \<open>X\<close> is the
  digit \<open>1\<close>; \<^verbatim>\<open>ReadFloatValue\<close> moves \<^verbatim>\<open>readPointer\<close> forward before it looks for the brace,
  enters the expression and throws "expected float value" (the object model answers with
  a Boolean). \<^verbatim>\<open>GetIValue\<close> on the same input returns 1.
\<close>

theorem GetFValue_raises_ExpectedFloat:
  "at (buffer brace_line) 4 = CHR ''1''
   \<and> GetFValue example_env (snd (Seen (CHR ''X'') brace_line)) = Inl (ParseException 9 ExpectedFloat)
   \<and> GetIValue example_env (snd (Seen (CHR ''X'') brace_line))
       = Inr (1, brace_line\<lparr>readPointer := - 1\<rparr>)"
  by (simp split del: if_split add: Seen_X_brace_line)
     (simp split del: if_split add: brace_line_eq GetFValue_def GetIValue_def
        number_simps getter_simps)


end
